theory Spec2Isabelle
  imports Complex_Main "HOL-Library.Char_ord" "HOL-Library.List_Lexorder"
    "HOL-Library.Product_Lexorder" "HOL-Library.Multiset"
begin

section \<open>Values and errors\<close>

text \<open>
  The dashboards (\<^verbatim>\<open>main.py\<close>, the callback-based one, and \<^verbatim>\<open>streamlit_app.py\<close>, the
  sidebar one) work on data frames. A frame is modelled as the list of its column names and
  the list of its rows; a row carries every field the aggregates read, and a field is
  meaningful only when its column is present. A missing value (NaN, NaT, None) is \<open>None\<close>.
  An exception is a value of type \<open>error\<close>.
\<close>

datatype error = KeyError string | IntCastingNaNError | DateParseError string | ValueError string

text \<open>
  A timestamp is a calendar date with the time of day: year, month, day and the nanosecond
  of the day. The product order is lexicographic, which is the chronological order.
\<close>

type_synonym timestamp = "int \<times> nat \<times> nat \<times> nat"

text \<open>
  The count column is a column of 64-bit integers after its normalisation, and a sum over it
  is a 64-bit sum, which wraps around. A count is modelled as an integer, the wrap-around is
  written out where the program adds counts.
\<close>

definition wrap64 :: "int \<Rightarrow> int" where
  "wrap64 x = (x + 2 ^ 63) mod 2 ^ 64 - 2 ^ 63"

record row =
  site_code :: string
  display_name :: string
  trap_name :: string
  count :: int
  sample_date :: "timestamp option"
  lat :: "real option"
  lon :: "real option"
  landuse :: "string option"
  region3 :: string
  year :: "int option"
  month :: string
  quarter :: string

record frame =
  columns :: "string list"
  rows :: "row list"

text \<open>\<^verbatim>\<open>df.empty\<close>: some axis of the frame has length 0.\<close>

definition empty :: "frame \<Rightarrow> bool" where
  "empty df = (rows df = [] \<or> columns df = [])"

text \<open>The string columns of a row, by column name (\<^verbatim>\<open>g[name]\<close>).\<close>

definition str_col :: "string \<Rightarrow> row \<Rightarrow> string" where
  "str_col c r =
     (if c = ''site_code'' then site_code r
      else if c = ''display_name'' then display_name r
      else if c = ''trap_name'' then trap_name r
      else if c = ''region3'' then region3 r
      else if c = ''month'' then month r
      else if c = ''quarter'' then quarter r
      else [])"

section \<open>Diversity index\<close>

text \<open>
  \<^verbatim>\<open>
  def shannon_index(counts: np.ndarray) -> float:
      counts = counts[counts > 0]
      if counts.size == 0:
          return 0.0
      p = counts / counts.sum()
      return -np.sum(p * np.log(p))
  \<close>
  The array holds the per-taxon totals of one group, converted to floating point. The model
  computes over the reals: the rounding of the floating-point operations is not modelled.
\<close>

definition shannon_index :: "real list \<Rightarrow> real" where
  "shannon_index counts =
     (let counts' = filter (\<lambda>c. 0 < c) counts
      in if length counts' = 0 then 0
         else let p = map (\<lambda>c. c / sum_list counts') counts'
              in - sum_list (map (\<lambda>x. x * ln x) p))"

section \<open>Normalisation of the raw table\<close>

text \<open>
  \<^verbatim>\<open>
  if "count" in arth.columns:
      arth["count"] = pd.to_numeric(arth["count"], errors="coerce").fillna(0).astype(int)
  \<close>
  (the same line in both dashboards). A cell of the raw column is missing, a number or a
  text. A number is a finite value or an infinity; values are reals, the rounding of
  floating point is not modelled. The text parser of \<^verbatim>\<open>pd.to_numeric\<close> belongs to the
  library and is a parameter: \<open>None\<close> is its answer on a text that is not a number, which
  \<^verbatim>\<open>errors="coerce"\<close> turns into NaN. \<^verbatim>\<open>astype(int)\<close> raises on an infinity and
  truncates a finite value towards zero; outside the 64-bit range the result of the
  conversion depends on the platform and is the parameter \<open>wrap\<close>.
\<close>

datatype npfloat = Finite real | Infinite

datatype cell = Missing | Number npfloat | Text string

definition to_numeric :: "(string \<Rightarrow> npfloat option) \<Rightarrow> cell \<Rightarrow> npfloat option" where
  "to_numeric parse c =
     (case c of Missing \<Rightarrow> None | Number v \<Rightarrow> Some v | Text s \<Rightarrow> parse s)"

definition fillna :: "'a \<Rightarrow> 'a option \<Rightarrow> 'a" where
  "fillna d v = (case v of None \<Rightarrow> d | Some x \<Rightarrow> x)"

definition trunc_zero :: "real \<Rightarrow> int" where
  "trunc_zero x = (if 0 \<le> x then \<lfloor>x\<rfloor> else \<lceil>x\<rceil>)"

definition astype_int :: "(real \<Rightarrow> int) \<Rightarrow> npfloat \<Rightarrow> error + int" where
  "astype_int wrap v =
     (case v of
        Infinite \<Rightarrow> Inl IntCastingNaNError
      | Finite x \<Rightarrow>
          if - (2 ^ 63) \<le> trunc_zero x \<and> trunc_zero x < 2 ^ 63 then Inr (trunc_zero x)
          else Inr (wrap x))"

definition normalize_count ::
  "(string \<Rightarrow> npfloat option) \<Rightarrow> (real \<Rightarrow> int) \<Rightarrow> cell \<Rightarrow> error + int" where
  "normalize_count parse wrap c = astype_int wrap (fillna (Finite 0) (to_numeric parse c))"




text \<open>
  The derived fields:
  \<^verbatim>\<open>
  arth["year"] = arth["sample_date"].dt.year
  arth["month"] = arth["sample_date"].dt.to_period("M").astype(str)
  arth["quarter"] = "Q" + arth["sample_date"].dt.quarter.astype("Int64").astype(str)
  \<close>
  For NaT the year is NaN, the period prints as \<^verbatim>\<open>NaT\<close> and the quarter as
  \<^verbatim>\<open><NA>\<close>.
\<close>

fun digits :: "nat \<Rightarrow> string" where
  "digits n =
     (if n < 10 then [''0123456789'' ! n]
      else digits (n div 10) @ [''0123456789'' ! (n mod 10)])"

definition zfill :: "nat \<Rightarrow> string \<Rightarrow> string" where
  "zfill w s = replicate (w - length s) CHR ''0'' @ s"

definition year_of :: "timestamp option \<Rightarrow> int option" where
  "year_of d = (case d of None \<Rightarrow> None | Some (y, m, dd, t) \<Rightarrow> Some y)"

definition month_of :: "timestamp option \<Rightarrow> string" where
  "month_of d =
     (case d of None \<Rightarrow> ''NaT''
      | Some (y, m, dd, t) \<Rightarrow> zfill 4 (digits (nat y)) @ ''-'' @ zfill 2 (digits m))"

definition quarter_of :: "timestamp option \<Rightarrow> string" where
  "quarter_of d =
     ''Q'' @ (case d of None \<Rightarrow> ''<NA>'' | Some (y, m, dd, t) \<Rightarrow> digits ((m - 1) div 3 + 1))"

section \<open>Grouping and library sorts\<close>

text \<open>
  \<^verbatim>\<open>df.groupby(keys)[col].sum()\<close>: one entry per distinct key, the keys in ascending order
  (\<^verbatim>\<open>sort=True\<close> is the default), each with the sum of the column over the rows of the
  key. A row whose key is missing (\<open>None\<close>) is in no group, which is the default
  \<^verbatim>\<open>dropna=True\<close>. Where the source passes \<^verbatim>\<open>dropna=False\<close> the keys are text columns,
  which are never missing, and the key function is total. The summed column is the count
  column, so the sum is a 64-bit sum. Texts are compared lexicographically by character
  code, as Python compares them (a text is its UTF-8 bytes, whose order is the order of the
  code points).
\<close>

definition group_keys :: "('r \<Rightarrow> 'k::linorder option) \<Rightarrow> 'r list \<Rightarrow> 'k list" where
  "group_keys key rs = sort (remdups (List.map_filter key rs))"

definition groupby_sum ::
  "('r \<Rightarrow> 'k::linorder option) \<Rightarrow> ('r \<Rightarrow> int) \<Rightarrow> 'r list \<Rightarrow> ('k \<times> int) list" where
  "groupby_sum key val rs =
     map (\<lambda>k. (k, wrap64 (sum_list (map val (filter (\<lambda>r. key r = Some k) rs)))))
       (group_keys key rs)"

text \<open>
  \<^verbatim>\<open>Series.sort_values\<close> and \<^verbatim>\<open>DataFrame.sort_values\<close> on one column sort with the
  library's default algorithm (\<^verbatim>\<open>kind="quicksort"\<close>), for which the library promises no
  order among equal keys. The two sorts are parameters of the model, gathered with the date
  parser \<^verbatim>\<open>pd.to_datetime\<close> and with \<^verbatim>\<open>str.strip\<close> in a record. What the library does
  promise of the sorts are the two contracts below.
\<close>

record library =
  sort_values_desc :: "(string \<times> int) list \<Rightarrow> (string \<times> int) list"
  sort_values_month :: "((string \<times> string) \<times> int) list \<Rightarrow> ((string \<times> string) \<times> int) list"
  to_datetime :: "string \<Rightarrow> timestamp option"
  str_strip :: "string \<Rightarrow> string"

definition desc_sort_contract :: "((string \<times> int) list \<Rightarrow> (string \<times> int) list) \<Rightarrow> bool" where
  "desc_sort_contract srt =
     (\<forall>xs. mset (srt xs) = mset xs \<and> sorted_wrt (\<lambda>a b. snd b \<le> snd a) (srt xs))"


text \<open>
  One instance of the library, for the concrete examples below only. Its sorts are stable
  sorts, which meet the two contracts; the program's own sort need not return equal keys in
  the same order. It strips the white space of ASCII, as Python does on ASCII text.
\<close>

definition ascii_space :: "char \<Rightarrow> bool" where
  "ascii_space c = (c \<in> set [CHR '' '', CHR 0x09, CHR 0x0A, CHR 0x0B, CHR 0x0C, CHR 0x0D,
     CHR 0x1C, CHR 0x1D, CHR 0x1E, CHR 0x1F])"

definition example_library :: "(string \<Rightarrow> timestamp option) \<Rightarrow> library" where
  "example_library parse =
     \<lparr>sort_values_desc = (\<lambda>xs. rev (sort_key snd (rev xs))),
      sort_values_month = sort_key (\<lambda>x. fst (fst x)),
      to_datetime = parse,
      str_strip = (\<lambda>s. rev (dropWhile ascii_space (rev (dropWhile ascii_space s))))\<rparr>"

section \<open>Diversity table and top taxa\<close>

text \<open>
  \<^verbatim>\<open>taxon_col = "display_name" if "display_name" in arth.columns else None\<close> is a global
  of both dashboards; the functions below take it as their first argument.
\<close>

definition taxon_col_of :: "string list \<Rightarrow> string option" where
  "taxon_col_of cols = (if ''display_name'' \<in> set cols then Some ''display_name'' else None)"

text \<open>
  \<^verbatim>\<open>
  def compute_diversity(df: pd.DataFrame) -> pd.DataFrame:
      if taxon_col is None or "year" not in df.columns:
          return pd.DataFrame(columns=["site_code","year","richness","shannon"])
      grouped = df.groupby(["site_code","year"])
      rows = []
      for (site, yr), g in grouped:
          richness = g[taxon_col].nunique(dropna=True)
          counts = g.groupby(taxon_col)["count"].sum().values
          sh = shannon_index(counts.astype(float)) if counts.size else 0.0
          rows.append({"site_code": site, "year": int(yr), "richness": int(richness), "shannon": sh})
      return pd.DataFrame(rows)
  \<close>
  The outer grouping raises a \<^verbatim>\<open>KeyError\<close> at once when the frame has no site column; the
  taxon and count columns are read inside the loop, so their absence raises only when there
  is a group.
\<close>

record diversity =
  div_site_code :: string
  div_year :: int
  richness :: nat
  shannon :: real

definition site_year :: "row \<Rightarrow> (string \<times> int) option" where
  "site_year r = (case year r of None \<Rightarrow> None | Some y \<Rightarrow> Some (site_code r, y))"

definition diversity_of_group :: "string \<Rightarrow> string \<times> int \<Rightarrow> row list \<Rightarrow> diversity" where
  "diversity_of_group c k g =
     (let counts = map snd (groupby_sum (\<lambda>r. Some (str_col c r)) count g)
      in \<lparr>div_site_code = fst k, div_year = snd k,
          richness = length (remdups (map (str_col c) g)),
          shannon = (if length counts \<noteq> 0 then shannon_index (map real_of_int counts) else 0)\<rparr>)"

definition compute_diversity :: "string option \<Rightarrow> frame \<Rightarrow> error + diversity list" where
  "compute_diversity taxon_col df =
     (case taxon_col of
        None \<Rightarrow> Inr []
      | Some c \<Rightarrow>
          if ''year'' \<notin> set (columns df) then Inr []
          else if ''site_code'' \<notin> set (columns df) then Inl (KeyError ''site_code'')
          else let keys = group_keys site_year (rows df)
               in if keys = [] then Inr []
                  else if c \<notin> set (columns df) then Inl (KeyError c)
                  else if ''count'' \<notin> set (columns df) then Inl (KeyError ''count'')
                  else Inr (map (\<lambda>k. diversity_of_group c k
                                        (filter (\<lambda>r. site_year r = Some k) (rows df))) keys))"

text \<open>
  \<^verbatim>\<open>
  def top_taxa(df: pd.DataFrame, n=20):
      if taxon_col is None:
          return []
      tot = df.groupby(taxon_col)["count"].sum().sort_values(ascending=False)
      return tot.head(n).index.tolist()
  \<close>
  The sidebar dashboard returns the empty list for an empty frame as well
  (\<^verbatim>\<open>if taxon_col is None or df.empty\<close>).
\<close>

definition top_taxa :: "library \<Rightarrow> string option \<Rightarrow> frame \<Rightarrow> nat \<Rightarrow> error + string list" where
  "top_taxa lib taxon_col df n =
     (case taxon_col of
        None \<Rightarrow> Inr []
      | Some c \<Rightarrow>
          if c \<notin> set (columns df) then Inl (KeyError c)
          else if ''count'' \<notin> set (columns df) then Inl (KeyError ''count'')
          else Inr (take n (map fst (sort_values_desc lib
                      (groupby_sum (\<lambda>r. Some (str_col c r)) count (rows df))))))"

definition top_taxa_st :: "library \<Rightarrow> string option \<Rightarrow> frame \<Rightarrow> nat \<Rightarrow> error + string list" where
  "top_taxa_st lib taxon_col df n =
     (if taxon_col = None \<or> empty df then Inr [] else top_taxa lib taxon_col df n)"

section \<open>Filters\<close>

text \<open>
  A filter selection is \<^verbatim>\<open>None\<close> (nothing selected yet) or a list; Python takes both
  \<^verbatim>\<open>None\<close> and the empty list (or the empty text) as false.
\<close>

definition truthy :: "'a list option \<Rightarrow> bool" where
  "truthy v = (case v of None \<Rightarrow> False | Some xs \<Rightarrow> xs \<noteq> [])"

definition selected :: "'a list option \<Rightarrow> 'a list" where
  "selected v = (case v of None \<Rightarrow> [] | Some xs \<Rightarrow> xs)"

definition bind_err :: "error + 'a \<Rightarrow> ('a \<Rightarrow> error + 'b) \<Rightarrow> error + 'b" where
  "bind_err m f = (case m of Inl e \<Rightarrow> Inl e | Inr x \<Rightarrow> f x)"

text \<open>\<^verbatim>\<open>g = g[g[c].isin(vals)]\<close>, which raises when the column is absent.\<close>

definition filter_isin :: "string \<Rightarrow> string list \<Rightarrow> frame \<Rightarrow> error + frame" where
  "filter_isin c vals g =
     (if c \<in> set (columns g)
      then Inr (g\<lparr>rows := filter (\<lambda>r. str_col c r \<in> set vals) (rows g)\<rparr>)
      else Inl (KeyError c))"

text \<open>
  The callback dashboard:
  \<^verbatim>\<open>
  def apply_filters(df, sites, taxa, traps, start_date, end_date):
      g = df.copy()
      if sites:
          g = g[g["site_code"].isin(sites)]
      if taxa and taxon_col:
          g = g[g[taxon_col].isin(taxa)]
      if traps and "trap_name" in g.columns:
          g = g[g["trap_name"].isin(traps)]
      if "sample_date" in g.columns and start_date and end_date:
          s = pd.to_datetime(start_date)
          e = pd.to_datetime(end_date)
          g = g[(g["sample_date"] >= s) & (g["sample_date"] <= e)]
      return g
  \<close>
  The two bounds arrive as texts; \<^verbatim>\<open>pd.to_datetime\<close> raises on a text it cannot parse.
  The comparison is one of timestamps, time of day included, and a comparison with NaT is
  false.
\<close>

definition in_range :: "timestamp \<Rightarrow> timestamp \<Rightarrow> row \<Rightarrow> bool" where
  "in_range s e r = (case sample_date r of None \<Rightarrow> False | Some d \<Rightarrow> s \<le> d \<and> d \<le> e)"

definition apply_filters ::
  "library \<Rightarrow> string option \<Rightarrow> frame \<Rightarrow> string list option \<Rightarrow> string list option \<Rightarrow>
   string list option \<Rightarrow> string option \<Rightarrow> string option \<Rightarrow> error + frame" where
  "apply_filters lib taxon_col df sites taxa traps start_date end_date =
     bind_err (if truthy sites then filter_isin ''site_code'' (selected sites) df else Inr df)
     (\<lambda>g. bind_err (case taxon_col of
                       None \<Rightarrow> Inr g
                     | Some c \<Rightarrow> if truthy taxa then filter_isin c (selected taxa) g else Inr g)
     (\<lambda>g. bind_err (if truthy traps \<and> ''trap_name'' \<in> set (columns g)
                     then filter_isin ''trap_name'' (selected traps) g else Inr g)
     (\<lambda>g. if ''sample_date'' \<in> set (columns g) \<and> truthy start_date \<and> truthy end_date
           then (case to_datetime lib (selected start_date) of
                   None \<Rightarrow> Inl (DateParseError (selected start_date))
                 | Some s \<Rightarrow>
                     (case to_datetime lib (selected end_date) of
                        None \<Rightarrow> Inl (DateParseError (selected end_date))
                      | Some e \<Rightarrow> Inr (g\<lparr>rows := filter (in_range s e) (rows g)\<rparr>)))
           else Inr g)))"

text \<open>
  The sidebar dashboard:
  \<^verbatim>\<open>
  def apply_filters(df, sites, taxa, years):
      g = df.copy()
      if sites:
          g = g[g["site_code"].isin(sites)]
      if taxa and taxon_col:
          g = g[g[taxon_col].isin(taxa)]
      if years and "year" in g.columns:
          g = g[g["year"].isin(years)]
      return g
  \<close>
\<close>

definition year_isin :: "int list \<Rightarrow> row \<Rightarrow> bool" where
  "year_isin ys r = (case year r of None \<Rightarrow> False | Some y \<Rightarrow> y \<in> set ys)"

definition apply_filters_st ::
  "string option \<Rightarrow> frame \<Rightarrow> string list option \<Rightarrow> string list option \<Rightarrow> int list option \<Rightarrow>
   error + frame" where
  "apply_filters_st taxon_col df sites taxa years =
     bind_err (if truthy sites then filter_isin ''site_code'' (selected sites) df else Inr df)
     (\<lambda>g. bind_err (case taxon_col of
                       None \<Rightarrow> Inr g
                     | Some c \<Rightarrow> if truthy taxa then filter_isin c (selected taxa) g else Inr g)
     (\<lambda>g. if truthy years \<and> ''year'' \<in> set (columns g)
           then Inr (g\<lparr>rows := filter (year_isin (selected years)) (rows g)\<rparr>)
           else Inr g))"

section \<open>The aggregates behind the charts\<close>



text \<open>
  Quarter by region (the same lines in both dashboards):
  \<^verbatim>\<open>
  if {"region3", "quarter", "count"}.issubset(g.columns) and not g.empty:
      lu_agg = g.groupby(["region3", "quarter"], dropna=False)["count"].sum().reset_index()
      q_order = ["Q1", "Q2", "Q3", "Q4"]
      lu_agg["quarter"] = pd.Categorical(lu_agg["quarter"], categories=q_order, ordered=True)
      lu_agg = lu_agg.sort_values(["region3", "quarter"])
  \<close>
  A label outside the categories becomes a missing category, which sorts last. A sort on
  two columns is the library's stable lexicographic sort.
\<close>

definition q_order :: "string list" where
  "q_order = [''Q1'', ''Q2'', ''Q3'', ''Q4'']"

fun index_of :: "'a \<Rightarrow> 'a list \<Rightarrow> nat" where
  "index_of x [] = 0"
| "index_of x (y # ys) = (if x = y then 0 else Suc (index_of x ys))"

definition categorical :: "string list \<Rightarrow> string \<Rightarrow> string option" where
  "categorical cats q = (if q \<in> set cats then Some q else None)"

definition cat_code :: "string list \<Rightarrow> string option \<Rightarrow> nat" where
  "cat_code cats q = (case q of None \<Rightarrow> length cats | Some l \<Rightarrow> index_of l cats)"

definition lu_agg :: "frame \<Rightarrow> (string \<times> string option \<times> int) list option" where
  "lu_agg g =
     (if set [''region3'', ''quarter'', ''count''] \<subseteq> set (columns g) \<and> \<not> empty g
      then Some (sort_key (\<lambda>(reg, q, c). (reg, cat_code q_order q))
             (map (\<lambda>((reg, q), c). (reg, categorical q_order q, c))
                (groupby_sum (\<lambda>r. Some (region3 r, quarter r)) count (rows g))))
      else None)"







section \<open>Loading and joining\<close>













section \<open>Example data\<close>

text \<open>
  The tables of the end-to-end examples of the specification, for the concrete instances of
  the theorems below. \<open>example_row\<close> builds a prepared row: its calendar fields are derived
  from its date as the module level derives them.
\<close>

definition example_columns :: "string list" where
  "example_columns = [''site_code'', ''display_name'', ''trap_name'', ''count'', ''sample_date'',
     ''lat'', ''lon'', ''landuse'', ''region3'', ''year'', ''month'', ''quarter'']"

definition example_row ::
  "string \<Rightarrow> string \<Rightarrow> int \<Rightarrow> timestamp option \<Rightarrow> (real \<times> real) option \<Rightarrow> row" where
  "example_row s t c d ll =
     \<lparr>site_code = s, display_name = t, trap_name = ''pitfall'', count = c, sample_date = d,
      lat = map_option fst ll, lon = map_option snd ll, landuse = None, region3 = ''Unknown'',
      year = year_of d, month = month_of d, quarter = quarter_of d\<rparr>"

definition ant_bee :: frame where
  "ant_bee = \<lparr>columns = example_columns,
     rows = [example_row ''S1'' ''Ant'' 5 (Some (2020, 1, 15, 0)) (Some (33, - 112)),
             example_row ''S1'' ''Bee'' 5 (Some (2020, 1, 20, 0)) (Some (33, - 112))]\<rparr>"

definition bee_ant :: frame where
  "bee_ant = \<lparr>columns = example_columns,
     rows = [example_row ''S1'' ''Bee'' 5 (Some (2020, 1, 20, 0)) (Some (33, - 112)),
             example_row ''S1'' ''Ant'' 5 (Some (2020, 1, 15, 0)) (Some (33, - 112))]\<rparr>"


definition example_dates :: "string \<Rightarrow> timestamp option" where
  "example_dates s =
     (if s = ''2020-01-01'' then Some (2020, 1, 1, 0)
      else if s = ''2020-01-15'' then Some (2020, 1, 15, 0)
      else if s = ''2020-01-16'' then Some (2020, 1, 16, 0)
      else if s = ''2020-01-20'' then Some (2020, 1, 20, 0)
      else if s = ''2020-12-31'' then Some (2020, 12, 31, 0)
      else None)"

text \<open>The first table as read from a file that has no count column.\<close>

definition ant_bee_no_count :: frame where
  "ant_bee_no_count = \<lparr>columns = filter (\<lambda>c. c \<noteq> ''count'') example_columns, rows = rows ant_bee\<rparr>"

text \<open>The first table as read from a file that has no trap column, and one without dates.\<close>

definition ant_bee_no_trap :: frame where
  "ant_bee_no_trap = \<lparr>columns = filter (\<lambda>c. c \<noteq> ''trap_name'') example_columns, rows = rows ant_bee\<rparr>"

definition ant_bee_no_date :: frame where
  "ant_bee_no_date =
     \<lparr>columns = [''site_code'', ''display_name'', ''trap_name'', ''count'', ''lat'', ''lon'',
        ''landuse'', ''region3''],
      rows = rows ant_bee\<rparr>"

text \<open>The second record taken at noon, and a third record of the next year.\<close>

definition ant_bee_noon :: frame where
  "ant_bee_noon = \<lparr>columns = example_columns,
     rows = [example_row ''S1'' ''Ant'' 5 (Some (2020, 1, 15, 0)) (Some (33, - 112)),
             example_row ''S1'' ''Bee'' 5 (Some (2020, 1, 20, 43200000000000)) (Some (33, - 112)),
             example_row ''S1'' ''Cat'' 7 (Some (2021, 3, 1, 0)) (Some (33, - 112))]\<rparr>"

text \<open>A group with a negative total: a correction entered as a count of -5.\<close>

definition ant_bee_cat :: frame where
  "ant_bee_cat = \<lparr>columns = example_columns,
     rows = [example_row ''S1'' ''Ant'' (- 5) (Some (2020, 1, 15, 0)) (Some (33, - 112)),
             example_row ''S1'' ''Bee'' 5 (Some (2020, 1, 20, 0)) (Some (33, - 112)),
             example_row ''S1'' ''Cat'' 5 (Some (2020, 1, 21, 0)) (Some (33, - 112))]\<rparr>"

section \<open>The diversity index the specification describes\<close>

text \<open>
  The specification's Shannon index, in its own words: the negative sum over taxa of
  proportion times natural logarithm of proportion, using only taxa with nonzero count,
  and exactly 0 when the group has no positive counts.
\<close>

definition spec_shannon :: "real list \<Rightarrow> real" where
  "spec_shannon counts =
     (if filter (\<lambda>c. 0 < c) counts = [] then 0
      else let used = filter (\<lambda>c. c \<noteq> 0) counts
           in - sum_list (map (\<lambda>c. (c / sum_list used) * ln (c / sum_list used)) used))"

section \<open>The ranking the specification describes\<close>

text \<open>
  The specification's top-N ranking, in its own words: the taxa by total count,
  descending, ties broken by first-encountered order. \<open>first_encountered\<close> lists the taxa
  in the order in which the rows of the table first mention them; the sort is stable and
  keeps that order among equal totals.
\<close>

definition first_encountered :: "string \<Rightarrow> frame \<Rightarrow> string list" where
  "first_encountered c df = rev (remdups (rev (map (str_col c) (rows df))))"

definition exact_total :: "string \<Rightarrow> frame \<Rightarrow> string \<Rightarrow> int" where
  "exact_total c df t = sum_list (map count (filter (\<lambda>r. str_col c r = t) (rows df)))"

definition spec_top_taxa :: "string \<Rightarrow> frame \<Rightarrow> nat \<Rightarrow> string list" where
  "spec_top_taxa c df n = take n (sort_key (\<lambda>t. - exact_total c df t) (first_encountered c df))"

text \<open>The total of a taxon as the program computes it: the 64-bit sum of its counts.\<close>

definition total_count :: "string \<Rightarrow> frame \<Rightarrow> string \<Rightarrow> int" where
  "total_count c df t = wrap64 (exact_total c df t)"





section \<open>Properties of the diversity index\<close>

lemma sum_list_pos_gt: "\<forall>x\<in>set xs. (0::real) < x \<Longrightarrow> xs \<noteq> [] \<Longrightarrow> 0 < sum_list xs"
  by (induction xs) (auto intro: add_pos_nonneg sum_list_nonneg less_imp_le)

lemma elem_le_sum_list_pos: "\<forall>x\<in>set xs. (0::real) < x \<Longrightarrow> x \<in> set xs \<Longrightarrow> x \<le> sum_list xs"
  by (induction xs) (auto intro: add_increasing add_increasing2 sum_list_nonneg less_imp_le)

lemma sum_list_neg: "sum_list (map (\<lambda>x. - f x) xs) = - sum_list (map f xs)" for f :: "'a \<Rightarrow> real"
  by (induction xs) auto

lemma plnp_nonpos: "(0::real) < p \<Longrightarrow> p \<le> 1 \<Longrightarrow> p * ln p \<le> 0"
  by (simp add: mult_nonneg_nonpos)

lemma plnp_zero_iff: "(0::real) < p \<Longrightarrow> p * ln p = 0 \<longleftrightarrow> p = 1"
  by simp

lemma shannon_index_nonneg: "0 \<le> shannon_index cs"
proof -
  define xs where "xs = filter (\<lambda>c. 0 < c) cs"
  have pos: "\<forall>x\<in>set xs. 0 < x" by (simp add: xs_def)
  show ?thesis
  proof (cases "xs = []")
    case True
    then show ?thesis by (simp add: shannon_index_def xs_def[symmetric])
  next
    case False
    have S: "0 < sum_list xs" using pos False by (rule sum_list_pos_gt)
    have "sum_list (map (\<lambda>x. x * ln x) (map (\<lambda>c. c / sum_list xs) xs)) \<le> 0"
    proof (rule sum_list_nonpos)
      fix t assume "t \<in> set (map (\<lambda>x. x * ln x) (map (\<lambda>c. c / sum_list xs) xs))"
      then obtain x where x: "x \<in> set xs" and t: "t = (x / sum_list xs) * ln (x / sum_list xs)" by auto
      have "0 < x / sum_list xs" using pos x S by simp
      moreover have "x / sum_list xs \<le> 1" using elem_le_sum_list_pos[OF pos x] S by simp
      ultimately show "t \<le> 0" unfolding t by (rule plnp_nonpos)
    qed
    then show ?thesis using False by (simp add: shannon_index_def xs_def[symmetric] Let_def)
  qed
qed

lemma shannon_index_zero_iff: "shannon_index cs = 0 \<longleftrightarrow> length (filter (\<lambda>c. 0 < c) cs) \<le> 1"
proof -
  define xs where "xs = filter (\<lambda>c. 0 < c) cs"
  have pos: "\<forall>x\<in>set xs. 0 < x" by (simp add: xs_def)
  show ?thesis
  proof (cases "xs = []")
    case True
    then show ?thesis by (simp add: shannon_index_def xs_def[symmetric])
  next
    case False
    have S: "0 < sum_list xs" using pos False by (rule sum_list_pos_gt)
    let ?ts = "map (\<lambda>x. - (x * ln x)) (map (\<lambda>c. c / sum_list xs) xs)"
    have sh: "shannon_index cs = sum_list ?ts"
      using False by (simp add: shannon_index_def xs_def[symmetric] Let_def o_def sum_list_neg)
    have tn: "\<forall>t\<in>set ?ts. 0 \<le> t"
    proof
      fix t assume "t \<in> set ?ts"
      then obtain x where x: "x \<in> set xs" and t: "t = - ((x / sum_list xs) * ln (x / sum_list xs))" by auto
      have "0 < x / sum_list xs" using pos x S by simp
      moreover have "x / sum_list xs \<le> 1" using elem_le_sum_list_pos[OF pos x] S by simp
      ultimately show "0 \<le> t" unfolding t using plnp_nonpos by fastforce
    qed
    have "sum_list ?ts = 0 \<longleftrightarrow> (\<forall>t\<in>set ?ts. t = 0)"
      using sum_list_nonneg_eq_0_iff[of ?ts] tn by blast
    also have "\<dots> \<longleftrightarrow> (\<forall>x\<in>set xs. x = sum_list xs)"
    proof -
      have "\<And>x. x \<in> set xs \<Longrightarrow> (- ((x / sum_list xs) * ln (x / sum_list xs)) = 0) = (x = sum_list xs)"
      proof -
        fix x assume x: "x \<in> set xs"
        have p: "0 < x / sum_list xs" using pos x S by simp
        show "(- ((x / sum_list xs) * ln (x / sum_list xs)) = 0) = (x = sum_list xs)"
        proof -
          have "(x / sum_list xs = 1) = (x = sum_list xs)" using S by (simp add: field_simps) blast
          moreover have "(- ((x / sum_list xs) * ln (x / sum_list xs)) = 0) = ((x / sum_list xs) * ln (x / sum_list xs) = 0)"
            by (rule neg_equal_0_iff_equal)
          ultimately show ?thesis using plnp_zero_iff[OF p] by (simp only:)
        qed
      qed
      then show ?thesis by auto
    qed
    also have "\<dots> \<longleftrightarrow> length xs \<le> 1"
    proof (cases xs)
      case Nil
      then show ?thesis using False by simp
    next
      case (Cons a ys)
      show ?thesis
      proof (cases ys)
        case Nil
        then show ?thesis using Cons by simp
      next
        case (Cons b zs)
        have "0 < b" using pos \<open>xs = a # ys\<close> Cons by simp
        moreover have "0 \<le> sum_list zs" using pos \<open>xs = a # ys\<close> Cons by (intro sum_list_nonneg) (auto intro: less_imp_le)
        ultimately have "a \<noteq> sum_list xs" using \<open>xs = a # ys\<close> Cons by simp
        then show ?thesis using \<open>xs = a # ys\<close> Cons by auto
      qed
    qed
    finally show ?thesis using sh by (simp add: xs_def)
  qed
qed

text \<open>
  Claim C5, as the specification states it: the Shannon index of a group is 0.0 exactly when
  only one taxon has a nonzero count. It fails on a group whose only total is 0: the index
  is 0.0 and no taxon has a nonzero count.
\<close>

theorem shannon_index_one_taxon_counterexample:
  "\<not> (\<forall>counts. shannon_index counts = 0 \<longleftrightarrow> length (filter (\<lambda>c. c \<noteq> 0) counts) = 1)"
proof
  assume "\<forall>counts. shannon_index counts = 0 \<longleftrightarrow> length (filter (\<lambda>c. c \<noteq> 0) counts) = 1"
  then have "shannon_index [0] = 0 \<longleftrightarrow> length (filter (\<lambda>c. c \<noteq> 0) [0::real]) = 1"
    by blast
  then show False
    by (simp add: shannon_index_def)
qed

text \<open>
  Claim C5, amended: the Shannon index of a group is 0.0 exactly when at most one taxon has a
  positive count in the group, and it is non-negative for any group.
\<close>

theorem shannon_index_zero_and_nonneg:
  "(shannon_index counts = 0 \<longleftrightarrow> length (filter (\<lambda>c. 0 < c) counts) \<le> 1)
   \<and> 0 \<le> shannon_index counts"
  using shannon_index_zero_iff [of counts] shannon_index_nonneg [of counts] by blast

section \<open>Properties of the count normalisation\<close>

lemma trunc_zero_nonneg: "0 \<le> x \<Longrightarrow> 0 \<le> trunc_zero x \<and> real_of_int (trunc_zero x) \<le> x \<and> x < real_of_int (trunc_zero x) + 1"
  unfolding trunc_zero_def by (simp add: floor_less_iff)

lemma trunc_zero_neg: "x < 0 \<Longrightarrow> trunc_zero x \<le> 0 \<and> x \<le> real_of_int (trunc_zero x) \<and> real_of_int (trunc_zero x) - 1 < x"
  unfolding trunc_zero_def by (simp add: ceiling_le_iff) linarith

text \<open>
  Claim C2, as the specification states it: every value of the count column is coerced to a
  non-negative integer. It fails on the number -5, which stays -5.
\<close>

theorem normalize_count_nonneg_counterexample:
  "\<not> (\<forall>parse wrap c. \<exists>n. normalize_count parse wrap c = Inr n \<and> 0 \<le> n)"
proof
  assume "\<forall>parse wrap c. \<exists>n. normalize_count parse wrap c = Inr n \<and> 0 \<le> n"
  then have "\<exists>n. normalize_count (\<lambda>s. None) (\<lambda>x. 0) (Number (Finite (- 5))) = Inr n \<and> 0 \<le> n"
    by blast
  then show False
    by (simp add: normalize_count_def to_numeric_def fillna_def astype_int_def trunc_zero_def)
qed

text \<open>
  Claim C2, amended: every value of the count column is coerced to an integer. A missing
  cell and a text that the numeric parser rejects yield exactly 0. A finite number (given
  as such or parsed from the text) whose truncation lies in the 64-bit range yields that
  number truncated towards zero: a fraction is cut off and a negative value stays
  non-positive, it is not made non-negative.
\<close>

theorem normalize_count_values:
  "normalize_count parse wrap Missing = Inr 0
   \<and> (parse s = None \<longrightarrow> normalize_count parse wrap (Text s) = Inr 0)
   \<and> (to_numeric parse c = Some (Finite x) \<and> - (2 ^ 63) \<le> trunc_zero x \<and> trunc_zero x < 2 ^ 63 \<longrightarrow>
        normalize_count parse wrap c = Inr (trunc_zero x)
        \<and> (0 \<le> x \<longrightarrow> 0 \<le> trunc_zero x \<and> real_of_int (trunc_zero x) \<le> x \<and> x < real_of_int (trunc_zero x) + 1)
        \<and> (x < 0 \<longrightarrow> trunc_zero x \<le> 0 \<and> x \<le> real_of_int (trunc_zero x) \<and> real_of_int (trunc_zero x) - 1 < x))"
proof (intro conjI impI)
  show "normalize_count parse wrap Missing = Inr 0"
    by (simp add: normalize_count_def to_numeric_def fillna_def astype_int_def trunc_zero_def)
next
  assume "parse s = None"
  then show "normalize_count parse wrap (Text s) = Inr 0"
    by (simp add: normalize_count_def to_numeric_def fillna_def astype_int_def trunc_zero_def)
next
  assume "to_numeric parse c = Some (Finite x) \<and> - (2 ^ 63) \<le> trunc_zero x \<and> trunc_zero x < 2 ^ 63"
  then show "normalize_count parse wrap c = Inr (trunc_zero x)"
    by (simp add: normalize_count_def fillna_def astype_int_def)
next
  assume "0 \<le> x"
  then show "0 \<le> trunc_zero x" "real_of_int (trunc_zero x) \<le> x" "x < real_of_int (trunc_zero x) + 1"
    using trunc_zero_nonneg [of x] by simp_all
next
  assume "x < 0"
  then show "trunc_zero x \<le> 0" "x \<le> real_of_int (trunc_zero x)" "real_of_int (trunc_zero x) - 1 < x"
    using trunc_zero_neg [of x] by simp_all
qed

theorem normalize_count_values_witness:
  "normalize_count (\<lambda>s. None) (\<lambda>x. 0) (Text ''abc'') = Inr 0
   \<and> normalize_count (\<lambda>s. None) (\<lambda>x. 0) (Number (Finite (- 5 / 2))) = Inr (- 2)
   \<and> normalize_count (\<lambda>s. None) (\<lambda>x. 0) (Number (Finite (7 / 2))) = Inr 3"
  using normalize_count_values [of "\<lambda>s. None" "\<lambda>x. 0" "''abc''" "Number (Finite (- 5 / 2))" "- 5 / 2"]
    normalize_count_values [of "\<lambda>s. None" "\<lambda>x. 0" "''abc''" "Number (Finite (7 / 2))" "7 / 2"]
  by (simp add: to_numeric_def trunc_zero_def)

section \<open>Properties of the filters\<close>

lemma filter_isin_columns: "filter_isin c vals g = Inr g' \<Longrightarrow> columns g' = columns g"
  by (auto simp: filter_isin_def split: if_splits)

lemma apply_filters_no_dates:
  "\<not> (truthy start_date \<and> truthy end_date) \<Longrightarrow>
   apply_filters lib taxon_col df sites taxa traps start_date end_date =
   apply_filters lib taxon_col df sites taxa traps None None"
  by (auto simp: apply_filters_def truthy_def)

lemma apply_filters_None_columns:
  "apply_filters lib taxon_col df sites taxa traps None None = Inr g \<Longrightarrow> columns g = columns df"
  by (cases "truthy sites"; cases "truthy taxa"; cases "truthy traps"; cases taxon_col)
     (auto simp: apply_filters_def bind_err_def filter_isin_def truthy_def split: if_splits)

lemma apply_filters_with_dates:
  assumes "truthy start_date" "truthy end_date" "''sample_date'' \<in> set (columns df)"
    and "to_datetime lib (selected start_date) = Some s"
    and "to_datetime lib (selected end_date) = Some e"
    and "apply_filters lib taxon_col df sites taxa traps None None = Inr g"
  shows "apply_filters lib taxon_col df sites taxa traps start_date end_date =
         Inr (g\<lparr>rows := filter (in_range s e) (rows g)\<rparr>)"
proof -
  have cols: "columns g = columns df"
    using assms(6) by (rule apply_filters_None_columns)
  have step: "\<And>m. bind_err m (\<lambda>g. Inr g) = m"
    by (simp add: bind_err_def split: sum.splits)
  show ?thesis
    using assms cols
    by (cases "truthy sites"; cases "truthy taxa"; cases "truthy traps"; cases taxon_col)
       (auto simp: apply_filters_def bind_err_def filter_isin_def truthy_def split: if_splits)
qed

lemma apply_filters_rows:
  assumes "''site_code'' \<in> set (columns df)" "taxon_col = Some c" "c \<in> set (columns df)"
    and "''trap_name'' \<in> set (columns df)" "''sample_date'' \<in> set (columns df)"
    and "truthy start_date \<and> truthy end_date \<longrightarrow>
         to_datetime lib (selected start_date) = Some s \<and> to_datetime lib (selected end_date) = Some e"
  shows "apply_filters lib taxon_col df sites taxa traps start_date end_date =
         Inr (df\<lparr>rows := filter (\<lambda>r.
             (truthy sites \<longrightarrow> str_col ''site_code'' r \<in> set (selected sites))
           \<and> (truthy taxa \<longrightarrow> str_col c r \<in> set (selected taxa))
           \<and> (truthy traps \<longrightarrow> str_col ''trap_name'' r \<in> set (selected traps))
           \<and> (truthy start_date \<and> truthy end_date \<longrightarrow> in_range s e r)) (rows df)\<rparr>)"
proof -
  have dates: "truthy start_date \<and> truthy end_date \<Longrightarrow>
      to_datetime lib (selected start_date) = Some s \<and> to_datetime lib (selected end_date) = Some e"
    using assms(6) by blast
  show ?thesis
    using assms(1-5) dates
    by (cases "truthy sites"; cases "truthy taxa"; cases "truthy traps";
        cases "truthy start_date"; cases "truthy end_date")
       (simp_all add: apply_filters_def bind_err_def filter_isin_def)
qed

lemma apply_filters_st_rows:
  assumes "''site_code'' \<in> set (columns df)" "taxon_col = Some c" "c \<in> set (columns df)"
    and "''year'' \<in> set (columns df)"
  shows "apply_filters_st taxon_col df sites taxa years =
         Inr (df\<lparr>rows := filter (\<lambda>r.
             (truthy sites \<longrightarrow> str_col ''site_code'' r \<in> set (selected sites))
           \<and> (truthy taxa \<longrightarrow> str_col c r \<in> set (selected taxa))
           \<and> (truthy years \<longrightarrow> year_isin (selected years) r)) (rows df)\<rparr>)"
  using assms
  by (cases "truthy sites"; cases "truthy taxa"; cases "truthy years")
     (simp_all add: apply_filters_st_def bind_err_def filter_isin_def)

lemma truthy_None: "truthy None = False"
  by (simp add: truthy_def)

lemma filter_none: "\<forall>r\<in>set rs. \<not> P r \<Longrightarrow> filter P rs = []"
  by (induction rs) auto


lemma bind_err_assoc: "bind_err (bind_err m f) k = bind_err m (\<lambda>x. bind_err (f x) k)"
  by (cases m) (simp_all add: bind_err_def)

lemma bind_err_return: "bind_err m Inr = m"
  by (cases m) (simp_all add: bind_err_def)

lemma bind_err_cong: "(\<And>x. m = Inr x \<Longrightarrow> f x = f' x) \<Longrightarrow> bind_err m f = bind_err m f'"
  by (cases m) (simp_all add: bind_err_def)

lemma in_range_iff: "in_range s e r \<longleftrightarrow> (\<exists>d. sample_date r = Some d \<and> s \<le> d \<and> d \<le> e)"
  by (cases "sample_date r") (simp_all add: in_range_def)

lemma year_isin_iff: "year_isin ys r \<longleftrightarrow> (\<exists>y. year r = Some y \<and> y \<in> set ys)"
  by (cases "year r") (simp_all add: year_isin_def)

lemma sites_step_columns:
  "(if truthy sites then filter_isin ''site_code'' (selected sites) df else Inr df) = Inr g \<Longrightarrow>
   columns g = columns df"
  by (auto simp: filter_isin_def split: if_splits)

lemma taxa_step_columns:
  "(case taxon_col of None \<Rightarrow> Inr g
    | Some c \<Rightarrow> if truthy taxa then filter_isin c (selected taxa) g else Inr g) = Inr g' \<Longrightarrow>
   columns g' = columns g"
  by (cases taxon_col) (auto simp: filter_isin_def split: if_splits)

lemma traps_step_columns:
  "(if truthy traps \<and> ''trap_name'' \<in> set (columns g)
    then filter_isin ''trap_name'' (selected traps) g else Inr g) = Inr g' \<Longrightarrow>
   columns g' = columns g"
  by (auto simp: filter_isin_def split: if_splits)

lemma apply_filters_no_trap_column:
  assumes "''trap_name'' \<notin> set (columns df)"
  shows "apply_filters lib taxon_col df sites taxa traps start_date end_date =
         apply_filters lib taxon_col df sites taxa None start_date end_date"
  unfolding apply_filters_def
proof (rule bind_err_cong)
  fix g1 assume "(if truthy sites then filter_isin ''site_code'' (selected sites) df else Inr df) = Inr g1"
  then have c1: "columns g1 = columns df"
    by (rule sites_step_columns)
  show "bind_err (case taxon_col of None \<Rightarrow> Inr g1
          | Some c \<Rightarrow> if truthy taxa then filter_isin c (selected taxa) g1 else Inr g1)
    (\<lambda>g. bind_err (if truthy traps \<and> ''trap_name'' \<in> set (columns g)
                     then filter_isin ''trap_name'' (selected traps) g else Inr g)
    (\<lambda>g. if ''sample_date'' \<in> set (columns g) \<and> truthy start_date \<and> truthy end_date
           then (case to_datetime lib (selected start_date) of
                   None \<Rightarrow> Inl (DateParseError (selected start_date))
                 | Some s \<Rightarrow>
                     (case to_datetime lib (selected end_date) of
                        None \<Rightarrow> Inl (DateParseError (selected end_date))
                      | Some e \<Rightarrow> Inr (g\<lparr>rows := filter (in_range s e) (rows g)\<rparr>)))
           else Inr g)) =
    bind_err (case taxon_col of None \<Rightarrow> Inr g1
          | Some c \<Rightarrow> if truthy taxa then filter_isin c (selected taxa) g1 else Inr g1)
    (\<lambda>g. bind_err (if truthy None \<and> ''trap_name'' \<in> set (columns g)
                     then filter_isin ''trap_name'' (selected None) g else Inr g)
    (\<lambda>g. if ''sample_date'' \<in> set (columns g) \<and> truthy start_date \<and> truthy end_date
           then (case to_datetime lib (selected start_date) of
                   None \<Rightarrow> Inl (DateParseError (selected start_date))
                 | Some s \<Rightarrow>
                     (case to_datetime lib (selected end_date) of
                        None \<Rightarrow> Inl (DateParseError (selected end_date))
                      | Some e \<Rightarrow> Inr (g\<lparr>rows := filter (in_range s e) (rows g)\<rparr>)))
           else Inr g))"
  proof (rule bind_err_cong)
    fix g2 assume "(case taxon_col of None \<Rightarrow> Inr g1
          | Some c \<Rightarrow> if truthy taxa then filter_isin c (selected taxa) g1 else Inr g1) = Inr g2"
    then have "columns g2 = columns g1"
      by (rule taxa_step_columns)
    then have "''trap_name'' \<notin> set (columns g2)"
      using c1 assms by simp
    then show "bind_err (if truthy traps \<and> ''trap_name'' \<in> set (columns g2)
                     then filter_isin ''trap_name'' (selected traps) g2 else Inr g2)
        (\<lambda>g. if ''sample_date'' \<in> set (columns g) \<and> truthy start_date \<and> truthy end_date
           then (case to_datetime lib (selected start_date) of
                   None \<Rightarrow> Inl (DateParseError (selected start_date))
                 | Some s \<Rightarrow>
                     (case to_datetime lib (selected end_date) of
                        None \<Rightarrow> Inl (DateParseError (selected end_date))
                      | Some e \<Rightarrow> Inr (g\<lparr>rows := filter (in_range s e) (rows g)\<rparr>)))
           else Inr g) =
      bind_err (if truthy None \<and> ''trap_name'' \<in> set (columns g2)
                     then filter_isin ''trap_name'' (selected None) g2 else Inr g2)
        (\<lambda>g. if ''sample_date'' \<in> set (columns g) \<and> truthy start_date \<and> truthy end_date
           then (case to_datetime lib (selected start_date) of
                   None \<Rightarrow> Inl (DateParseError (selected start_date))
                 | Some s \<Rightarrow>
                     (case to_datetime lib (selected end_date) of
                        None \<Rightarrow> Inl (DateParseError (selected end_date))
                      | Some e \<Rightarrow> Inr (g\<lparr>rows := filter (in_range s e) (rows g)\<rparr>)))
           else Inr g)"
      by simp
  qed
qed

lemma apply_filters_split:
  "apply_filters lib taxon_col df sites taxa traps start_date end_date =
   bind_err (apply_filters lib taxon_col df sites taxa traps None None)
     (\<lambda>g. if ''sample_date'' \<in> set (columns g) \<and> truthy start_date \<and> truthy end_date
           then (case to_datetime lib (selected start_date) of
                   None \<Rightarrow> Inl (DateParseError (selected start_date))
                 | Some s \<Rightarrow>
                     (case to_datetime lib (selected end_date) of
                        None \<Rightarrow> Inl (DateParseError (selected end_date))
                      | Some e \<Rightarrow> Inr (g\<lparr>rows := filter (in_range s e) (rows g)\<rparr>)))
           else Inr g)"
  by (simp add: apply_filters_def truthy_None bind_err_assoc bind_err_return)

lemma apply_filters_no_date_column:
  assumes "''sample_date'' \<notin> set (columns df)"
  shows "apply_filters lib taxon_col df sites taxa traps start_date end_date =
         apply_filters lib taxon_col df sites taxa traps None None"
proof -
  have "bind_err (apply_filters lib taxon_col df sites taxa traps None None)
     (\<lambda>g. if ''sample_date'' \<in> set (columns g) \<and> truthy start_date \<and> truthy end_date
           then (case to_datetime lib (selected start_date) of
                   None \<Rightarrow> Inl (DateParseError (selected start_date))
                 | Some s \<Rightarrow>
                     (case to_datetime lib (selected end_date) of
                        None \<Rightarrow> Inl (DateParseError (selected end_date))
                      | Some e \<Rightarrow> Inr (g\<lparr>rows := filter (in_range s e) (rows g)\<rparr>)))
           else Inr g) =
     bind_err (apply_filters lib taxon_col df sites taxa traps None None) Inr"
  proof (rule bind_err_cong)
    fix g assume "apply_filters lib taxon_col df sites taxa traps None None = Inr g"
    then have "columns g = columns df"
      by (rule apply_filters_None_columns)
    then show "(if ''sample_date'' \<in> set (columns g) \<and> truthy start_date \<and> truthy end_date
           then (case to_datetime lib (selected start_date) of
                   None \<Rightarrow> Inl (DateParseError (selected start_date))
                 | Some s \<Rightarrow>
                     (case to_datetime lib (selected end_date) of
                        None \<Rightarrow> Inl (DateParseError (selected end_date))
                      | Some e \<Rightarrow> Inr (g\<lparr>rows := filter (in_range s e) (rows g)\<rparr>)))
           else Inr g) = Inr g"
      using assms by simp
  qed
  then show ?thesis
    unfolding apply_filters_split [of lib taxon_col df sites taxa traps start_date end_date]
    by (simp only: bind_err_return)
qed

lemma apply_filters_st_no_year_column:
  assumes "''year'' \<notin> set (columns df)"
  shows "apply_filters_st taxon_col df sites taxa years = apply_filters_st taxon_col df sites taxa None"
  unfolding apply_filters_st_def
proof (rule bind_err_cong)
  fix g1 assume "(if truthy sites then filter_isin ''site_code'' (selected sites) df else Inr df) = Inr g1"
  then have c1: "columns g1 = columns df"
    by (rule sites_step_columns)
  show "bind_err (case taxon_col of None \<Rightarrow> Inr g1
          | Some c \<Rightarrow> if truthy taxa then filter_isin c (selected taxa) g1 else Inr g1)
      (\<lambda>g. if truthy years \<and> ''year'' \<in> set (columns g)
            then Inr (g\<lparr>rows := filter (year_isin (selected years)) (rows g)\<rparr>) else Inr g) =
    bind_err (case taxon_col of None \<Rightarrow> Inr g1
          | Some c \<Rightarrow> if truthy taxa then filter_isin c (selected taxa) g1 else Inr g1)
      (\<lambda>g. if truthy None \<and> ''year'' \<in> set (columns g)
            then Inr (g\<lparr>rows := filter (year_isin (selected None)) (rows g)\<rparr>) else Inr g)"
  proof (rule bind_err_cong)
    fix g2 assume "(case taxon_col of None \<Rightarrow> Inr g1
          | Some c \<Rightarrow> if truthy taxa then filter_isin c (selected taxa) g1 else Inr g1) = Inr g2"
    then have "columns g2 = columns g1"
      by (rule taxa_step_columns)
    then have "''year'' \<notin> set (columns g2)"
      using c1 assms by simp
    then show "(if truthy years \<and> ''year'' \<in> set (columns g2)
            then Inr (g2\<lparr>rows := filter (year_isin (selected years)) (rows g2)\<rparr>) else Inr g2) =
          (if truthy None \<and> ''year'' \<in> set (columns g2)
            then Inr (g2\<lparr>rows := filter (year_isin (selected None)) (rows g2)\<rparr>) else Inr g2)"
      by simp
  qed
qed

lemma apply_filters_no_taxon_column:
  "apply_filters lib None df sites taxa traps start_date end_date =
   apply_filters lib None df sites None traps start_date end_date"
  "apply_filters_st None df sites taxa years = apply_filters_st None df sites None years"
  by (simp_all add: apply_filters_def apply_filters_st_def)

text \<open>
  Claim C3, as the specification states it: for every table, a selection of which no row
  has a value yields the empty table. The first example table without its trap column has
  no row of the trap \<^verbatim>\<open>malaise\<close>, and the filter function of the callback dashboard
  returns the whole table for that selection.
\<close>

theorem apply_filters_absent_column_counterexample:
  "apply_filters (example_library example_dates) (Some ''display_name'') ant_bee_no_trap
     None None (Some [''malaise'']) None None = Inr ant_bee_no_trap
   \<and> rows ant_bee_no_trap \<noteq> []
   \<and> ''trap_name'' \<notin> set (columns ant_bee_no_trap)"
  by (simp add: apply_filters_def bind_err_def truthy_def ant_bee_no_trap_def ant_bee_def
      example_columns_def)

text \<open>
  Claim C3, amended: on a table that has the site, taxon, trap, date and year columns, and
  for bounds of the date range that parse, each filter function returns exactly the rows
  that match all supplied filters, combined with logical AND: the site, the taxon and the
  trap are among the selected ones, the timestamp is present and lies between the two
  bounds, bounds included, and the year is present and among the selected ones. The date
  range counts as supplied when both bounds are. An empty or unselected selection of sites,
  taxa, traps or years leaves that dimension unfiltered, and a selection of which no row
  has a value yields the empty table. On a table without the trap, date or year column,
  or without a taxon column, a selection in that dimension is ignored and leaves the
  dimension unfiltered.
\<close>

theorem apply_filters_conjunction:
  assumes "''site_code'' \<in> set (columns df)" "taxon_col = Some c" "c \<in> set (columns df)"
    and "''trap_name'' \<in> set (columns df)" "''sample_date'' \<in> set (columns df)"
    and "''year'' \<in> set (columns df)"
    and "truthy start_date \<and> truthy end_date \<longrightarrow>
         to_datetime lib (selected start_date) = Some s \<and> to_datetime lib (selected end_date) = Some e"
  shows "apply_filters lib taxon_col df sites taxa traps start_date end_date =
           Inr (df\<lparr>rows := filter (\<lambda>r.
               (truthy sites \<longrightarrow> site_code r \<in> set (selected sites))
             \<and> (truthy taxa \<longrightarrow> str_col c r \<in> set (selected taxa))
             \<and> (truthy traps \<longrightarrow> trap_name r \<in> set (selected traps))
             \<and> (truthy start_date \<and> truthy end_date \<longrightarrow>
                  (\<exists>d. sample_date r = Some d \<and> s \<le> d \<and> d \<le> e))) (rows df)\<rparr>)
       \<and> apply_filters_st taxon_col df sites taxa years =
           Inr (df\<lparr>rows := filter (\<lambda>r.
               (truthy sites \<longrightarrow> site_code r \<in> set (selected sites))
             \<and> (truthy taxa \<longrightarrow> str_col c r \<in> set (selected taxa))
             \<and> (truthy years \<longrightarrow> (\<exists>y. year r = Some y \<and> y \<in> set (selected years)))) (rows df)\<rparr>)
       \<and> (c = ''display_name'' \<longrightarrow> str_col c = display_name)
       \<and> (\<not> truthy sites \<longrightarrow>
            apply_filters lib taxon_col df sites taxa traps start_date end_date =
            apply_filters lib taxon_col df None taxa traps start_date end_date
          \<and> apply_filters_st taxon_col df sites taxa years = apply_filters_st taxon_col df None taxa years)
       \<and> (\<not> truthy taxa \<longrightarrow>
            apply_filters lib taxon_col df sites taxa traps start_date end_date =
            apply_filters lib taxon_col df sites None traps start_date end_date
          \<and> apply_filters_st taxon_col df sites taxa years = apply_filters_st taxon_col df sites None years)
       \<and> (\<not> truthy traps \<longrightarrow>
            apply_filters lib taxon_col df sites taxa traps start_date end_date =
            apply_filters lib taxon_col df sites taxa None start_date end_date)
       \<and> (\<not> truthy years \<longrightarrow>
            apply_filters_st taxon_col df sites taxa years = apply_filters_st taxon_col df sites taxa None)
       \<and> ((truthy sites \<and> (\<forall>r\<in>set (rows df). site_code r \<notin> set (selected sites)))
          \<or> (truthy taxa \<and> (\<forall>r\<in>set (rows df). str_col c r \<notin> set (selected taxa))) \<longrightarrow>
            apply_filters lib taxon_col df sites taxa traps start_date end_date = Inr (df\<lparr>rows := []\<rparr>)
          \<and> apply_filters_st taxon_col df sites taxa years = Inr (df\<lparr>rows := []\<rparr>))
       \<and> (truthy traps \<and> (\<forall>r\<in>set (rows df). trap_name r \<notin> set (selected traps)) \<longrightarrow>
            apply_filters lib taxon_col df sites taxa traps start_date end_date = Inr (df\<lparr>rows := []\<rparr>))
       \<and> (truthy years \<and> (\<forall>r\<in>set (rows df). \<forall>y. year r = Some y \<longrightarrow> y \<notin> set (selected years)) \<longrightarrow>
            apply_filters_st taxon_col df sites taxa years = Inr (df\<lparr>rows := []\<rparr>))
       \<and> (\<forall>df'. ''trap_name'' \<notin> set (columns df') \<longrightarrow>
            apply_filters lib taxon_col df' sites taxa traps start_date end_date =
            apply_filters lib taxon_col df' sites taxa None start_date end_date)
       \<and> (\<forall>df'. ''sample_date'' \<notin> set (columns df') \<longrightarrow>
            apply_filters lib taxon_col df' sites taxa traps start_date end_date =
            apply_filters lib taxon_col df' sites taxa traps None None)
       \<and> (\<forall>df'. ''year'' \<notin> set (columns df') \<longrightarrow>
            apply_filters_st taxon_col df' sites taxa years =
            apply_filters_st taxon_col df' sites taxa None)
       \<and> (\<forall>df'. apply_filters lib None df' sites taxa traps start_date end_date =
                 apply_filters lib None df' sites None traps start_date end_date
               \<and> apply_filters_st None df' sites taxa years = apply_filters_st None df' sites None years)"
proof -
  have main: "apply_filters lib taxon_col df sites taxa traps start_date end_date =
           Inr (df\<lparr>rows := filter (\<lambda>r.
               (truthy sites \<longrightarrow> site_code r \<in> set (selected sites))
             \<and> (truthy taxa \<longrightarrow> str_col c r \<in> set (selected taxa))
             \<and> (truthy traps \<longrightarrow> trap_name r \<in> set (selected traps))
             \<and> (truthy start_date \<and> truthy end_date \<longrightarrow>
                  (\<exists>d. sample_date r = Some d \<and> s \<le> d \<and> d \<le> e))) (rows df)\<rparr>)"
    using apply_filters_rows [OF assms(1-5) assms(7), of sites taxa traps]
    by (simp add: in_range_iff str_col_def)
  have st: "apply_filters_st taxon_col df sites taxa years =
           Inr (df\<lparr>rows := filter (\<lambda>r.
               (truthy sites \<longrightarrow> site_code r \<in> set (selected sites))
             \<and> (truthy taxa \<longrightarrow> str_col c r \<in> set (selected taxa))
             \<and> (truthy years \<longrightarrow> (\<exists>y. year r = Some y \<and> y \<in> set (selected years)))) (rows df)\<rparr>)"
    using apply_filters_st_rows [OF assms(1-3) assms(6), of sites taxa years]
    by (simp add: year_isin_iff str_col_def)
  have col: "c = ''display_name'' \<longrightarrow> str_col c = display_name"
    by (auto simp: str_col_def)
  have noop_sites: "\<not> truthy sites \<longrightarrow>
            apply_filters lib taxon_col df sites taxa traps start_date end_date =
            apply_filters lib taxon_col df None taxa traps start_date end_date
          \<and> apply_filters_st taxon_col df sites taxa years = apply_filters_st taxon_col df None taxa years"
    using assms(2) by (simp add: apply_filters_def apply_filters_st_def truthy_None)
  have noop_taxa: "\<not> truthy taxa \<longrightarrow>
            apply_filters lib taxon_col df sites taxa traps start_date end_date =
            apply_filters lib taxon_col df sites None traps start_date end_date
          \<and> apply_filters_st taxon_col df sites taxa years = apply_filters_st taxon_col df sites None years"
    using assms(2) by (simp add: apply_filters_def apply_filters_st_def truthy_None)
  have noop_traps: "\<not> truthy traps \<longrightarrow>
            apply_filters lib taxon_col df sites taxa traps start_date end_date =
            apply_filters lib taxon_col df sites taxa None start_date end_date"
    by (simp add: apply_filters_def truthy_None)
  have noop_years: "\<not> truthy years \<longrightarrow>
            apply_filters_st taxon_col df sites taxa years = apply_filters_st taxon_col df sites taxa None"
    by (simp add: apply_filters_st_def truthy_None)
  have e1: "(truthy sites \<and> (\<forall>r\<in>set (rows df). site_code r \<notin> set (selected sites)))
          \<or> (truthy taxa \<and> (\<forall>r\<in>set (rows df). str_col c r \<notin> set (selected taxa))) \<longrightarrow>
            apply_filters lib taxon_col df sites taxa traps start_date end_date = Inr (df\<lparr>rows := []\<rparr>)
          \<and> apply_filters_st taxon_col df sites taxa years = Inr (df\<lparr>rows := []\<rparr>)"
    unfolding main st by (auto intro!: filter_none)
  have e2: "truthy traps \<and> (\<forall>r\<in>set (rows df). trap_name r \<notin> set (selected traps)) \<longrightarrow>
            apply_filters lib taxon_col df sites taxa traps start_date end_date = Inr (df\<lparr>rows := []\<rparr>)"
    unfolding main by (auto intro!: filter_none)
  have e3: "truthy years \<and> (\<forall>r\<in>set (rows df). \<forall>y. year r = Some y \<longrightarrow> y \<notin> set (selected years)) \<longrightarrow>
            apply_filters_st taxon_col df sites taxa years = Inr (df\<lparr>rows := []\<rparr>)"
    unfolding st by (auto intro!: filter_none)
  have g1: "\<forall>df'. ''trap_name'' \<notin> set (columns df') \<longrightarrow>
            apply_filters lib taxon_col df' sites taxa traps start_date end_date =
            apply_filters lib taxon_col df' sites taxa None start_date end_date"
    using apply_filters_no_trap_column by blast
  have g2: "\<forall>df'. ''sample_date'' \<notin> set (columns df') \<longrightarrow>
            apply_filters lib taxon_col df' sites taxa traps start_date end_date =
            apply_filters lib taxon_col df' sites taxa traps None None"
    using apply_filters_no_date_column by blast
  have g3: "\<forall>df'. ''year'' \<notin> set (columns df') \<longrightarrow>
            apply_filters_st taxon_col df' sites taxa years =
            apply_filters_st taxon_col df' sites taxa None"
    using apply_filters_st_no_year_column by blast
  have g4: "\<forall>df'. apply_filters lib None df' sites taxa traps start_date end_date =
                 apply_filters lib None df' sites None traps start_date end_date
               \<and> apply_filters_st None df' sites taxa years = apply_filters_st None df' sites None years"
    using apply_filters_no_taxon_column by blast
  show ?thesis
    by (intro conjI main st col noop_sites noop_taxa noop_traps noop_years e1 e2 e3 g1 g2 g3 g4)
qed

theorem apply_filters_conjunction_witness:
  "apply_filters (example_library example_dates) (Some ''display_name'') ant_bee_noon
     (Some [''S1'']) None None (Some ''2020-01-15'') (Some ''2020-01-20'') =
     Inr (ant_bee_noon\<lparr>rows := [example_row ''S1'' ''Ant'' 5 (Some (2020, 1, 15, 0)) (Some (33, - 112))]\<rparr>)
   \<and> apply_filters_st (Some ''display_name'') ant_bee_noon (Some [''S1'']) None (Some [2021]) =
     Inr (ant_bee_noon\<lparr>rows := [example_row ''S1'' ''Cat'' 7 (Some (2021, 3, 1, 0)) (Some (33, - 112))]\<rparr>)"
proof -
  have cols: "''site_code'' \<in> set (columns ant_bee_noon)" "''display_name'' \<in> set (columns ant_bee_noon)"
    "''trap_name'' \<in> set (columns ant_bee_noon)" "''sample_date'' \<in> set (columns ant_bee_noon)"
    "''year'' \<in> set (columns ant_bee_noon)"
    by (simp_all add: ant_bee_noon_def example_columns_def)
  have dates: "truthy (Some ''2020-01-15'') \<and> truthy (Some ''2020-01-20'') \<longrightarrow>
      to_datetime (example_library example_dates) (selected (Some ''2020-01-15'')) = Some (2020, 1, 15, 0)
      \<and> to_datetime (example_library example_dates) (selected (Some ''2020-01-20'')) = Some (2020, 1, 20, 0)"
    by (simp add: example_library_def example_dates_def selected_def)
  note t = apply_filters_conjunction [OF cols(1) refl cols(2-5) dates,
      of "Some [''S1'']" None None "Some [2021]"]
  have a: "apply_filters (example_library example_dates) (Some ''display_name'') ant_bee_noon
     (Some [''S1'']) None None (Some ''2020-01-15'') (Some ''2020-01-20'') =
     Inr (ant_bee_noon\<lparr>rows := [example_row ''S1'' ''Ant'' 5 (Some (2020, 1, 15, 0)) (Some (33, - 112))]\<rparr>)"
    unfolding t [THEN conjunct1]
    by (simp add: ant_bee_noon_def example_row_def truthy_def selected_def str_col_def)
  have b: "apply_filters_st (Some ''display_name'') ant_bee_noon (Some [''S1'']) None (Some [2021]) =
     Inr (ant_bee_noon\<lparr>rows := [example_row ''S1'' ''Cat'' 7 (Some (2021, 3, 1, 0)) (Some (33, - 112))]\<rparr>)"
    unfolding t [THEN conjunct2, THEN conjunct1]
    by (simp add: ant_bee_noon_def example_row_def truthy_def selected_def str_col_def year_of_def)
  show ?thesis
    using a b by (rule conjI)
qed

text \<open>
  Claim C10: in the filter function of the callback dashboard the date range is applied
  only when both a start and an end date are supplied. When either bound is missing (or
  empty) the result is the one without any date bound; when both are supplied (and parse,
  on a table with a date column) the result is that one restricted to the rows dated
  within the bounds.
\<close>

theorem date_range_needs_both_bounds:
  "(\<not> (truthy start_date \<and> truthy end_date) \<longrightarrow>
      apply_filters lib taxon_col df sites taxa traps start_date end_date =
      apply_filters lib taxon_col df sites taxa traps None None)
   \<and> (truthy start_date \<and> truthy end_date \<and> ''sample_date'' \<in> set (columns df)
      \<and> to_datetime lib (selected start_date) = Some s
      \<and> to_datetime lib (selected end_date) = Some e
      \<and> apply_filters lib taxon_col df sites taxa traps None None = Inr g \<longrightarrow>
      apply_filters lib taxon_col df sites taxa traps start_date end_date =
      Inr (g\<lparr>rows := filter (in_range s e) (rows g)\<rparr>))"
  using apply_filters_no_dates [of start_date end_date lib taxon_col df sites taxa traps]
    apply_filters_with_dates [of start_date end_date df lib s e taxon_col sites taxa traps g]
  by blast

theorem date_range_needs_both_bounds_witness:
  "apply_filters (example_library example_dates) (Some ''display_name'') ant_bee
     None None None (Some ''2020-01-16'') None =
   apply_filters (example_library example_dates) (Some ''display_name'') ant_bee
     None None None None None
   \<and> apply_filters (example_library example_dates) (Some ''display_name'') ant_bee
     None None None (Some ''2020-01-16'') (Some ''2020-12-31'') =
     Inr (ant_bee\<lparr>rows := filter (in_range (2020, 1, 16, 0) (2020, 12, 31, 0)) (rows ant_bee)\<rparr>)"
proof -
  have none: "apply_filters (example_library example_dates) (Some ''display_name'') ant_bee
     None None None None None = Inr ant_bee"
    by (simp add: apply_filters_def bind_err_def truthy_def)
  show ?thesis
    using date_range_needs_both_bounds [where start_date = "Some ''2020-01-16''"
        and end_date = None and lib = "example_library example_dates"
        and taxon_col = "Some ''display_name''" and df = ant_bee and sites = None
        and taxa = None and traps = None]
      date_range_needs_both_bounds [where start_date = "Some ''2020-01-16''"
        and end_date = "Some ''2020-12-31''" and lib = "example_library example_dates"
        and taxon_col = "Some ''display_name''" and df = ant_bee and sites = None
        and taxa = None and traps = None and s = "(2020, 1, 16, 0)" and e = "(2020, 12, 31, 0)"
        and g = ant_bee]
      none
    by (simp add: truthy_def selected_def example_library_def example_dates_def ant_bee_def
        example_columns_def)
qed

section \<open>Properties of the grouping\<close>

lemma set_map_filter_Some: "set (List.map_filter f xs) = {y. \<exists>x\<in>set xs. f x = Some y}"
  by (induction xs) (auto simp: List.map_filter_simps split: option.splits)

lemma set_group_keys: "set (group_keys key rs) = {k. \<exists>r\<in>set rs. key r = Some k}"
  by (simp add: group_keys_def set_map_filter_Some)

lemma distinct_group_keys: "distinct (group_keys key rs)"
  by (simp add: group_keys_def)

lemma sorted_group_keys: "sorted (group_keys key rs)"
  by (simp add: group_keys_def)

lemma map_fst_groupby_sum: "map fst (groupby_sum key val rs) = group_keys key rs"
  by (simp add: groupby_sum_def o_def)

lemma groupby_sum_lookup:
  "(k, v) \<in> set (groupby_sum key val rs) \<longleftrightarrow>
   (\<exists>r\<in>set rs. key r = Some k) \<and> v = wrap64 (sum_list (map val (filter (\<lambda>r. key r = Some k) rs)))"
proof -
  have "(k, v) \<in> set (groupby_sum key val rs) \<longleftrightarrow>
        k \<in> set (group_keys key rs) \<and> v = wrap64 (sum_list (map val (filter (\<lambda>r. key r = Some k) rs)))"
    unfolding groupby_sum_def by (simp add: image_iff)
  then show ?thesis
    by (simp add: set_group_keys)
qed

lemma group_keys_empty_iff: "group_keys key rs = [] \<longleftrightarrow> (\<forall>r\<in>set rs. key r = None)"
proof
  assume "group_keys key rs = []"
  then have e: "{k. \<exists>r\<in>set rs. key r = Some k} = {}"
    using set_group_keys [of key rs] by simp
  show "\<forall>r\<in>set rs. key r = None"
  proof
    fix r assume r: "r \<in> set rs"
    show "key r = None"
    proof (cases "key r")
      case None
      then show ?thesis .
    next
      case (Some k)
      then have "k \<in> {k. \<exists>r\<in>set rs. key r = Some k}" using r by blast
      then show ?thesis using e by simp
    qed
  qed
next
  assume "\<forall>r\<in>set rs. key r = None"
  then have "{k. \<exists>r\<in>set rs. key r = Some k} = {}" by simp
  then have "set (group_keys key rs) = {}" by (simp only: set_group_keys)
  then show "group_keys key rs = []" by simp
qed

section \<open>Properties of the diversity table\<close>

lemma shannon_index_of_totals:
  fixes h :: "'k \<Rightarrow> real"
  assumes "distinct ks"
  shows "shannon_index (map h ks) =
         (let P = {k \<in> set ks. 0 < h k}; S = (\<Sum>k\<in>P. h k)
          in if P = {} then 0 else - (\<Sum>k\<in>P. (h k / S) * ln (h k / S)))"
proof -
  define ps where "ps = filter (\<lambda>k. 0 < h k) ks"
  have d: "distinct ps" using assms by (simp add: ps_def)
  have P: "set ps = {k \<in> set ks. 0 < h k}" by (auto simp: ps_def)
  have f: "filter (\<lambda>c. 0 < c) (map h ks) = map h ps"
    by (simp add: ps_def filter_map o_def)
  have S: "sum_list (map h ps) = (\<Sum>k\<in>set ps. h k)"
    using d by (rule sum_list_distinct_conv_sum_set)
  have T: "sum_list (map (\<lambda>k. (h k / (\<Sum>k\<in>set ps. h k)) * ln (h k / (\<Sum>k\<in>set ps. h k))) ps) =
           (\<Sum>k\<in>set ps. (h k / (\<Sum>k\<in>set ps. h k)) * ln (h k / (\<Sum>k\<in>set ps. h k)))"
    using d by (rule sum_list_distinct_conv_sum_set)
  have e: "ps = [] \<longleftrightarrow> set ps = {}" by simp
  show ?thesis
    unfolding shannon_index_def f Let_def P [symmetric]
    by (simp only: length_0_conv map_is_Nil_conv e S map_map o_def T)
qed

lemma site_year_eq: "site_year r = Some k \<longleftrightarrow> site_code r = fst k \<and> year r = Some (snd k)"
  by (cases k) (auto simp: site_year_def split: option.splits)

lemma diversity_of_group_key:
  "div_site_code (diversity_of_group c k g) = fst k" "div_year (diversity_of_group c k g) = snd k"
  by (simp_all add: diversity_of_group_def Let_def)

lemma diversity_of_group_richness:
  "richness (diversity_of_group c k g) = card (str_col c ` set g)"
  by (simp add: diversity_of_group_def Let_def length_remdups_card_conv)

lemma diversity_of_group_shannon:
  "shannon (diversity_of_group c k g) =
     (let total = (\<lambda>t. real_of_int (wrap64 (sum_list (map count (filter (\<lambda>r. str_col c r = t) g)))));
          P = {t \<in> str_col c ` set g. 0 < total t};
          S = (\<Sum>t\<in>P. total t)
      in if P = {} then 0 else - (\<Sum>t\<in>P. (total t / S) * ln (total t / S)))"
proof -
  define ks where "ks = group_keys (\<lambda>r. Some (str_col c r)) g"
  define total where "total = (\<lambda>t. real_of_int (wrap64 (sum_list (map count (filter (\<lambda>r. str_col c r = t) g)))))"
  have d: "distinct ks" by (simp add: ks_def distinct_group_keys)
  have s: "set ks = str_col c ` set g" by (auto simp: ks_def set_group_keys)
  have counts: "map real_of_int (map snd (groupby_sum (\<lambda>r. Some (str_col c r)) count g)) = map total ks"
    by (simp add: groupby_sum_def ks_def total_def o_def)
  have len: "length (map snd (groupby_sum (\<lambda>r. Some (str_col c r)) count g)) \<noteq> 0 \<longleftrightarrow> ks \<noteq> []"
    by (simp add: groupby_sum_def ks_def)
  have sh: "shannon (diversity_of_group c k g) = (if ks \<noteq> [] then shannon_index (map total ks) else 0)"
    by (simp only: diversity_of_group_def Let_def diversity.select_convs len counts)
  have e: "ks = [] \<Longrightarrow> {t \<in> str_col c ` set g. 0 < total t} = {}"
    using s by auto
  show ?thesis
    unfolding sh total_def [symmetric]
    using shannon_index_of_totals [OF d, of total] e
    by (simp add: s Let_def)
qed

lemma compute_diversity_rows:
  assumes "taxon_col = Some c" "''year'' \<in> set (columns df)" "''site_code'' \<in> set (columns df)"
    and "c \<in> set (columns df)" "''count'' \<in> set (columns df)"
  shows "compute_diversity taxon_col df =
         Inr (map (\<lambda>k. diversity_of_group c k (filter (\<lambda>r. site_year r = Some k) (rows df)))
                (group_keys site_year (rows df)))"
  using assms by (simp add: compute_diversity_def Let_def)

lemma wrap64_exact: "- (2 ^ 63) \<le> x \<Longrightarrow> x < 2 ^ 63 \<Longrightarrow> wrap64 x = x"
  by (simp add: wrap64_def)

text \<open>
  Claim C1, as the specification states it: the Shannon index of a group uses the taxa with
  a nonzero count. The group of the fourth example table has the per-taxon totals -5, 5
  and 5: three taxa with a nonzero count. Its index is ln 2, the index of the two taxa with
  a positive total alone, and not the value of the described sum over the three taxa (in
  that sum the proportion of the first taxon is -1; the logarithm here is that of the
  absolute value, the program's logarithm of a negative number is not a number).
\<close>

theorem diversity_nonzero_taxa_counterexample:
  "groupby_sum (\<lambda>r. Some (display_name r)) count (rows ant_bee_cat) =
     [(''Ant'', - 5), (''Bee'', 5), (''Cat'', 5)]
   \<and> compute_diversity (Some ''display_name'') ant_bee_cat =
       Inr [\<lparr>div_site_code = ''S1'', div_year = 2020, richness = 3, shannon = ln 2\<rparr>]
   \<and> spec_shannon [- 5, 5, 5] \<noteq> ln 2"
proof -
  have "groupby_sum (\<lambda>r. Some (display_name r)) count (rows ant_bee_cat) =
     [(''Ant'', - 5), (''Bee'', 5), (''Cat'', 5)]"
    by (simp add: groupby_sum_def group_keys_def ant_bee_cat_def example_row_def wrap64_def)
  moreover have "compute_diversity (Some ''display_name'') ant_bee_cat =
       Inr [\<lparr>div_site_code = ''S1'', div_year = 2020, richness = 3, shannon = ln 2\<rparr>]"
    by (simp add: compute_diversity_def ant_bee_cat_def example_columns_def example_row_def
        diversity_of_group_def site_year_def year_of_def groupby_sum_def group_keys_def
        str_col_def shannon_index_def ln_div wrap64_def)
  moreover have "spec_shannon [- 5, 5, 5] = 0"
    by (simp add: spec_shannon_def ln_minus)
  moreover have "ln (2 :: real) \<noteq> 0"
    by simp
  ultimately show ?thesis
    by simp
qed

text \<open>
  Claim C1, amended: on a table with the site, year, taxon and count columns, the diversity
  table has exactly one row for every (site, year) pair that some row of the table
  carries. Its richness is the number of distinct taxa of the group. Its Shannon index is
  computed from the per-taxon count totals of the group, which are 64-bit sums (the exact
  totals when these lie in the 64-bit range): over the taxa with a positive total, the
  negative sum of proportion times natural logarithm of proportion, the proportions being
  taken of the sum of the positive totals, and exactly 0 when no taxon has a positive
  total. A taxon whose total is zero or negative does not enter the index. For the two
  records of site S1 in January 2020, Ant 5 and Bee 5, the table is the single row
  (S1, 2020) with richness 2 and Shannon index ln 2.
\<close>

theorem compute_diversity_table:
  assumes "taxon_col = Some c" "''year'' \<in> set (columns df)" "''site_code'' \<in> set (columns df)"
    and "c \<in> set (columns df)" "''count'' \<in> set (columns df)"
  shows "\<exists>ds. compute_diversity taxon_col df = Inr ds
     \<and> distinct (map (\<lambda>d. (div_site_code d, div_year d)) ds)
     \<and> (\<forall>site yr. (\<exists>r\<in>set (rows df). site_code r = site \<and> year r = Some yr) \<longleftrightarrow>
                   (\<exists>d\<in>set ds. div_site_code d = site \<and> div_year d = yr))
     \<and> (\<forall>d\<in>set ds.
          let g = filter (\<lambda>r. site_code r = div_site_code d \<and> year r = Some (div_year d)) (rows df);
              total = (\<lambda>t. real_of_int (wrap64 (sum_list (map count (filter (\<lambda>r. str_col c r = t) g)))));
              P = {t \<in> str_col c ` set g. 0 < total t};
              S = (\<Sum>t\<in>P. total t)
          in richness d = card (str_col c ` set g)
           \<and> shannon d = (if P = {} then 0 else - (\<Sum>t\<in>P. (total t / S) * ln (total t / S))))
     \<and> (\<forall>x. - (2 ^ 63) \<le> x \<and> x < 2 ^ 63 \<longrightarrow> wrap64 x = x)
     \<and> compute_diversity (Some ''display_name'') ant_bee =
         Inr [\<lparr>div_site_code = ''S1'', div_year = 2020, richness = 2, shannon = ln 2\<rparr>]"
proof -
  define F where "F = (\<lambda>k. diversity_of_group c k (filter (\<lambda>r. site_year r = Some k) (rows df)))"
  define ds where "ds = map F (group_keys site_year (rows df))"
  have res: "compute_diversity taxon_col df = Inr ds"
    unfolding ds_def F_def using assms by (rule compute_diversity_rows)
  have keys: "map (\<lambda>d. (div_site_code d, div_year d)) ds = group_keys site_year (rows df)"
    by (simp add: ds_def F_def o_def diversity_of_group_key)
  have dist: "distinct (map (\<lambda>d. (div_site_code d, div_year d)) ds)"
    unfolding keys by (rule distinct_group_keys)
  have cover: "(\<exists>r\<in>set (rows df). site_code r = site \<and> year r = Some yr) \<longleftrightarrow>
               (\<exists>d\<in>set ds. div_site_code d = site \<and> div_year d = yr)" for site yr
  proof -
    have "(\<exists>d\<in>set ds. div_site_code d = site \<and> div_year d = yr) \<longleftrightarrow>
          (site, yr) \<in> set (map (\<lambda>d. (div_site_code d, div_year d)) ds)"
      by auto
    also have "\<dots> \<longleftrightarrow> (\<exists>r\<in>set (rows df). site_year r = Some (site, yr))"
      unfolding keys set_group_keys by simp
    also have "\<dots> \<longleftrightarrow> (\<exists>r\<in>set (rows df). site_code r = site \<and> year r = Some yr)"
      by (simp add: site_year_eq)
    finally show ?thesis by simp
  qed
  have each: "let g = filter (\<lambda>r. site_code r = div_site_code d \<and> year r = Some (div_year d)) (rows df);
              total = (\<lambda>t. real_of_int (wrap64 (sum_list (map count (filter (\<lambda>r. str_col c r = t) g)))));
              P = {t \<in> str_col c ` set g. 0 < total t};
              S = (\<Sum>t\<in>P. total t)
          in richness d = card (str_col c ` set g)
           \<and> shannon d = (if P = {} then 0 else - (\<Sum>t\<in>P. (total t / S) * ln (total t / S)))"
    if "d \<in> set ds" for d
  proof -
    from that obtain k where d: "d = F k" by (auto simp: ds_def)
    have g: "filter (\<lambda>r. site_code r = div_site_code d \<and> year r = Some (div_year d)) (rows df) =
             filter (\<lambda>r. site_year r = Some k) (rows df)"
      by (simp add: d F_def diversity_of_group_key site_year_eq)
    show ?thesis
      unfolding g Let_def
    proof (intro conjI)
      show "richness d = card (str_col c ` set (filter (\<lambda>r. site_year r = Some k) (rows df)))"
        unfolding d F_def by (rule diversity_of_group_richness)
    next
      show "shannon d =
        (if {t \<in> str_col c ` set (filter (\<lambda>r. site_year r = Some k) (rows df)).
              0 < real_of_int (wrap64 (sum_list (map count (filter (\<lambda>r. str_col c r = t)
                    (filter (\<lambda>r. site_year r = Some k) (rows df))))))} = {}
         then 0
         else - (\<Sum>t\<in>{t \<in> str_col c ` set (filter (\<lambda>r. site_year r = Some k) (rows df)).
              0 < real_of_int (wrap64 (sum_list (map count (filter (\<lambda>r. str_col c r = t)
                    (filter (\<lambda>r. site_year r = Some k) (rows df))))))}.
             real_of_int (wrap64 (sum_list (map count (filter (\<lambda>r. str_col c r = t)
                    (filter (\<lambda>r. site_year r = Some k) (rows df)))))) /
             (\<Sum>t\<in>{t \<in> str_col c ` set (filter (\<lambda>r. site_year r = Some k) (rows df)).
              0 < real_of_int (wrap64 (sum_list (map count (filter (\<lambda>r. str_col c r = t)
                    (filter (\<lambda>r. site_year r = Some k) (rows df))))))}.
                real_of_int (wrap64 (sum_list (map count (filter (\<lambda>r. str_col c r = t)
                    (filter (\<lambda>r. site_year r = Some k) (rows df))))))) *
             ln (real_of_int (wrap64 (sum_list (map count (filter (\<lambda>r. str_col c r = t)
                    (filter (\<lambda>r. site_year r = Some k) (rows df)))))) /
             (\<Sum>t\<in>{t \<in> str_col c ` set (filter (\<lambda>r. site_year r = Some k) (rows df)).
              0 < real_of_int (wrap64 (sum_list (map count (filter (\<lambda>r. str_col c r = t)
                    (filter (\<lambda>r. site_year r = Some k) (rows df))))))}.
                real_of_int (wrap64 (sum_list (map count (filter (\<lambda>r. str_col c r = t)
                    (filter (\<lambda>r. site_year r = Some k) (rows df))))))))))"
        unfolding d F_def by (rule diversity_of_group_shannon [unfolded Let_def])
    qed
  qed
  have ex: "compute_diversity (Some ''display_name'') ant_bee =
         Inr [\<lparr>div_site_code = ''S1'', div_year = 2020, richness = 2, shannon = ln 2\<rparr>]"
    by (simp add: compute_diversity_def ant_bee_def example_columns_def example_row_def
        diversity_of_group_def site_year_def year_of_def groupby_sum_def group_keys_def
        str_col_def shannon_index_def ln_div wrap64_def)
  have exact: "\<forall>x. - (2 ^ 63) \<le> x \<and> x < 2 ^ 63 \<longrightarrow> wrap64 x = x"
    using wrap64_exact by blast
  show ?thesis
    using res dist cover each exact ex by blast
qed

theorem compute_diversity_table_witness:
  "\<exists>ds. compute_diversity (Some ''display_name'') ant_bee = Inr ds
     \<and> (\<exists>d\<in>set ds. div_site_code d = ''S1'' \<and> div_year d = 2020)
     \<and> (\<forall>d\<in>set ds. richness d = 2 \<and> shannon d = ln 2)"
proof -
  have c1: "''year'' \<in> set (columns ant_bee)"
    and c2: "''site_code'' \<in> set (columns ant_bee)"
    and c3: "''display_name'' \<in> set (columns ant_bee)"
    and c4: "''count'' \<in> set (columns ant_bee)"
    by (simp_all add: ant_bee_def example_columns_def)
  have "compute_diversity (Some ''display_name'') ant_bee =
         Inr [\<lparr>div_site_code = ''S1'', div_year = 2020, richness = 2, shannon = ln 2\<rparr>]"
    using compute_diversity_table [OF refl c1 c2 c3 c4] by blast
  then show ?thesis
    by simp
qed

section \<open>Properties of the top taxa\<close>

text \<open>
  Claim C9 holds of the code where the taxon or the year column is absent and where the
  table is empty; it does not hold where the count column is absent, although the module
  level and the quarter-by-region aggregate guard that very case. On the first example
  table without its count column both aggregate functions raise \<^verbatim>\<open>KeyError\<close>.
\<close>

theorem aggregates_raise_without_count:
  "top_taxa lib (taxon_col_of (columns ant_bee_no_count)) ant_bee_no_count 100 = Inl (KeyError ''count'')
   \<and> compute_diversity (taxon_col_of (columns ant_bee_no_count)) ant_bee_no_count = Inl (KeyError ''count'')
   \<and> lu_agg ant_bee_no_count = None"
  by (simp add: top_taxa_def compute_diversity_def lu_agg_def taxon_col_of_def ant_bee_no_count_def
      ant_bee_def example_columns_def example_row_def group_keys_def site_year_def year_of_def
      List.map_filter_simps)

lemma groupby_sum_ant_bee:
  "groupby_sum (\<lambda>r. Some (str_col ''display_name'' r)) count (rows ant_bee) = [(''Ant'', 5), (''Bee'', 5)]"
  "groupby_sum (\<lambda>r. Some (str_col ''display_name'' r)) count (rows bee_ant) = [(''Ant'', 5), (''Bee'', 5)]"
  by (simp_all add: groupby_sum_def group_keys_def ant_bee_def bee_ant_def example_row_def
      str_col_def wrap64_def)

lemma spec_top_taxa_ant_bee:
  "spec_top_taxa ''display_name'' ant_bee 20 = [''Ant'', ''Bee'']"
  "spec_top_taxa ''display_name'' bee_ant 20 = [''Bee'', ''Ant'']"
  by (simp_all add: spec_top_taxa_def first_encountered_def exact_total_def ant_bee_def
      bee_ant_def example_row_def str_col_def)

text \<open>
  Claim C6, as the specification states it: ties of the top-N ranking are broken by
  first-encountered order. The two example tables hold the same two records in opposite
  order, Ant and Bee with 5 each. Whatever the library's sort does with equal totals, the
  function returns the same ranking for both tables, so it differs from the described
  ranking on one of them.
\<close>

theorem top_taxa_first_encountered_counterexample:
  "\<not> (\<exists>lib. top_taxa lib (Some ''display_name'') ant_bee 20 =
               Inr (spec_top_taxa ''display_name'' ant_bee 20)
           \<and> top_taxa lib (Some ''display_name'') bee_ant 20 =
               Inr (spec_top_taxa ''display_name'' bee_ant 20))"
proof
  assume "\<exists>lib. top_taxa lib (Some ''display_name'') ant_bee 20 =
               Inr (spec_top_taxa ''display_name'' ant_bee 20)
           \<and> top_taxa lib (Some ''display_name'') bee_ant 20 =
               Inr (spec_top_taxa ''display_name'' bee_ant 20)"
  then obtain lib where
    a: "top_taxa lib (Some ''display_name'') ant_bee 20 = Inr [''Ant'', ''Bee'']" and
    b: "top_taxa lib (Some ''display_name'') bee_ant 20 = Inr [''Bee'', ''Ant'']"
    unfolding spec_top_taxa_ant_bee by blast
  have "top_taxa lib (Some ''display_name'') ant_bee 20 = top_taxa lib (Some ''display_name'') bee_ant 20"
    by (simp add: top_taxa_def groupby_sum_ant_bee) (simp add: ant_bee_def bee_ant_def)
  with a b show False
    by simp
qed

lemma group_keys_mset:
  assumes "mset rs = mset rs'"
  shows "group_keys key rs = group_keys key rs'"
proof -
  have "set rs = set rs'"
    using assms by (rule mset_eq_setD)
  then have "set (List.map_filter key rs) = set (List.map_filter key rs')"
    by (simp add: set_map_filter_Some)
  then have "sorted_list_of_set (set (List.map_filter key rs)) =
             sorted_list_of_set (set (List.map_filter key rs'))"
    by simp
  then show ?thesis
    by (simp only: group_keys_def sorted_list_of_set_sort_remdups)
qed

lemma sum_list_filter_mset:
  fixes val :: "'r \<Rightarrow> int"
  assumes "mset rs = mset rs'"
  shows "sum_list (map val (filter P rs)) = sum_list (map val (filter P rs'))"
proof -
  have "mset (map val (filter P rs)) = mset (map val (filter P rs'))"
    using assms by simp
  then have "sum_mset (mset (map val (filter P rs))) = sum_mset (mset (map val (filter P rs')))"
    by (rule arg_cong)
  then show ?thesis
    by (simp only: sum_mset_sum_list)
qed

lemma groupby_sum_mset:
  assumes "mset rs = mset rs'"
  shows "groupby_sum key val rs = groupby_sum key val rs'"
  unfolding groupby_sum_def
  using group_keys_mset [OF assms, of key] sum_list_filter_mset [OF assms, of val]
  by simp

lemma example_library_desc_contract: "desc_sort_contract (sort_values_desc (example_library parse))"
proof -
  have "sorted_wrt (\<lambda>a b. snd b \<le> snd a) (rev (sort_key snd (rev xs)))" for xs :: "(string \<times> int) list"
  proof -
    have "sorted (map snd (sort_key snd (rev xs)))"
      by (rule sorted_sort_key)
    then have "sorted_wrt (\<lambda>a b. snd a \<le> snd b) (sort_key snd (rev xs))"
      by (simp add: sorted_map)
    then show ?thesis
      by (simp add: sorted_wrt_rev)
  qed
  then show ?thesis
    by (simp add: desc_sort_contract_def example_library_def)
qed


lemma groupby_sum_total:
  "x \<in> set (groupby_sum (\<lambda>r. Some (str_col c r)) count (rows df)) \<Longrightarrow>
   snd x = total_count c df (fst x) \<and> fst x \<in> str_col c ` set (rows df)"
  using groupby_sum_lookup [of "fst x" "snd x" "\<lambda>r. Some (str_col c r)" count "rows df"]
  by (auto simp: total_count_def exact_total_def intro: rev_image_eqI)

lemma top_taxa_rows:
  assumes "taxon_col = Some c" "c \<in> set (columns df)" "''count'' \<in> set (columns df)"
  shows "top_taxa lib taxon_col df n =
         Inr (take n (map fst (sort_values_desc lib
                (groupby_sum (\<lambda>r. Some (str_col c r)) count (rows df)))))"
  using assms by (simp add: top_taxa_def)

text \<open>
  Claim C6, amended: the top-N ranking is deterministic and sorted by descending total
  count, the total of a taxon being the 64-bit sum of its counts (its exact total when
  that lies in the 64-bit range). On a table with the taxon and count columns, and for any
  library sort that returns its input sorted by descending value, the ranking of either
  dashboard lists distinct taxa of the table, as many as there are up to N, in descending
  order of their totals, and no taxon left out has a larger total than a listed one. The
  ranking does not depend on the order of the rows, so ties are not broken by
  first-encountered order: the sort receives the taxa in alphabetical order, and the order
  among tied taxa is the one that the library's sort returns on that list.
\<close>

theorem top_taxa_ranking:
  assumes "desc_sort_contract (sort_values_desc lib)"
    and "taxon_col = Some c" "c \<in> set (columns df)" "''count'' \<in> set (columns df)"
  shows "\<exists>ts. top_taxa lib taxon_col df n = Inr ts
     \<and> distinct ts
     \<and> set ts \<subseteq> str_col c ` set (rows df)
     \<and> length ts = min n (card (str_col c ` set (rows df)))
     \<and> sorted_wrt (\<lambda>a b. total_count c df b \<le> total_count c df a) ts
     \<and> (\<forall>t\<in>set ts. \<forall>u\<in>str_col c ` set (rows df) - set ts. total_count c df u \<le> total_count c df t)
     \<and> (\<forall>df'. columns df' = columns df \<and> mset (rows df') = mset (rows df) \<longrightarrow>
           top_taxa lib taxon_col df' n = Inr ts)
     \<and> top_taxa lib taxon_col df n =
         Inr (take n (map fst (sort_values_desc lib
                (map (\<lambda>t. (t, total_count c df t)) (sort (remdups (map (str_col c) (rows df))))))))
     \<and> top_taxa_st lib taxon_col df n = Inr ts
     \<and> (\<forall>t. - (2 ^ 63) \<le> exact_total c df t \<and> exact_total c df t < 2 ^ 63 \<longrightarrow>
            total_count c df t = exact_total c df t)
     \<and> (c = ''display_name'' \<longrightarrow> str_col c = display_name)"
proof -
  define G where "G = groupby_sum (\<lambda>r. Some (str_col c r)) count (rows df)"
  define L where "L = sort_values_desc lib G"
  define ts where "ts = take n (map fst L)"
  have mL: "mset L = mset G" and sL: "sorted_wrt (\<lambda>a b. snd b \<le> snd a) L"
    using assms(1) by (simp_all add: desc_sort_contract_def L_def)
  have setL: "set L = set G"
    using mL by (rule mset_eq_setD)
  have keysG: "map fst G = group_keys (\<lambda>r. Some (str_col c r)) (rows df)"
    by (simp add: G_def map_fst_groupby_sum)
  have setG: "set (map fst G) = str_col c ` set (rows df)"
    unfolding keysG set_group_keys by auto
  have dG: "distinct (map fst G)"
    unfolding keysG by (rule distinct_group_keys)
  have mfst: "mset (map fst L) = mset (map fst G)"
    using mL by simp
  have dL: "distinct (map fst L)"
    using mset_eq_imp_distinct_iff [OF mfst] dG by simp
  have setfL: "set (map fst L) = str_col c ` set (rows df)"
    using mset_eq_setD [OF mfst] setG by simp
  have lenL: "length (map fst L) = card (str_col c ` set (rows df))"
    using distinct_card [OF dL] setfL by simp
  have tot: "snd x = total_count c df (fst x)" if "x \<in> set L" for x
    using that groupby_sum_total [of x c df] by (simp add: setL G_def)
  have res: "top_taxa lib taxon_col df n = Inr ts"
    unfolding ts_def L_def G_def using assms(2-4) by (rule top_taxa_rows)
  have d: "distinct ts"
    unfolding ts_def using dL by (rule distinct_take)
  have sub: "set ts \<subseteq> str_col c ` set (rows df)"
    unfolding ts_def using set_take_subset [of n "map fst L"] setfL by blast
  have len: "length ts = min n (card (str_col c ` set (rows df)))"
    unfolding ts_def using lenL by (simp add: min.commute)
  have sfull: "sorted_wrt (\<lambda>a b. total_count c df b \<le> total_count c df a) (map fst L)"
  proof -
    have "sorted_wrt (\<lambda>x y. total_count c df (fst y) \<le> total_count c df (fst x)) L"
      using sL by (rule sorted_wrt_mono_rel [rotated]) (simp add: tot [symmetric])
    then show ?thesis
      by (simp add: sorted_wrt_map)
  qed
  have srt: "sorted_wrt (\<lambda>a b. total_count c df b \<le> total_count c df a) ts"
    unfolding ts_def using sfull by (rule sorted_wrt_take)
  have rest: "total_count c df u \<le> total_count c df t"
    if "t \<in> set ts" "u \<in> str_col c ` set (rows df) - set ts" for t u
  proof -
    have split: "map fst L = ts @ drop n (map fst L)"
      by (simp add: ts_def)
    have "u \<in> set (map fst L)"
      using that(2) setfL by blast
    then have "u \<in> set (drop n (map fst L))"
      using that(2) split by (metis DiffD2 Un_iff set_append)
    moreover have "sorted_wrt (\<lambda>a b. total_count c df b \<le> total_count c df a) (ts @ drop n (map fst L))"
      using sfull split by simp
    ultimately show ?thesis
      using that(1) by (auto simp: sorted_wrt_append)
  qed
  have perm: "top_taxa lib taxon_col df' n = Inr ts"
    if "columns df' = columns df \<and> mset (rows df') = mset (rows df)" for df'
  proof -
    have "groupby_sum (\<lambda>r. Some (str_col c r)) count (rows df') = G"
      unfolding G_def using that by (intro groupby_sum_mset) simp
    then show ?thesis
      using top_taxa_rows [of taxon_col c df' lib n] assms(2-4) that
      by (simp add: ts_def L_def)
  qed
  have alpha: "top_taxa lib taxon_col df n =
         Inr (take n (map fst (sort_values_desc lib
                (map (\<lambda>t. (t, total_count c df t)) (sort (remdups (map (str_col c) (rows df))))))))"
  proof -
    have "List.map_filter (\<lambda>r. Some (str_col c r)) rs = map (str_col c) rs" for rs :: "row list"
      by (induction rs) simp_all
    then have "G = map (\<lambda>t. (t, total_count c df t)) (sort (remdups (map (str_col c) (rows df))))"
      by (simp add: G_def groupby_sum_def group_keys_def total_count_def exact_total_def)
    then show ?thesis
      using res by (simp add: ts_def L_def)
  qed
  have st: "top_taxa_st lib taxon_col df n = Inr ts"
  proof (cases "rows df = []")
    case True
    then have "G = []"
      by (simp add: G_def groupby_sum_def group_keys_def)
    then have "L = []"
      using mL by simp
    then have "ts = []"
      by (simp add: ts_def)
    then show ?thesis
      using True assms(2) by (simp add: top_taxa_st_def empty_def)
  next
    case False
    moreover have "columns df \<noteq> []"
      using assms(3) by auto
    ultimately show ?thesis
      using res assms(2) by (simp add: top_taxa_st_def empty_def)
  qed
  have exact: "\<forall>t. - (2 ^ 63) \<le> exact_total c df t \<and> exact_total c df t < 2 ^ 63 \<longrightarrow>
            total_count c df t = exact_total c df t"
    by (simp add: total_count_def wrap64_exact)
  have col: "c = ''display_name'' \<longrightarrow> str_col c = display_name"
    by (auto simp: str_col_def)
  show ?thesis
    using res d sub len srt rest perm alpha st exact col by blast
qed

theorem top_taxa_ranking_witness:
  "\<exists>ts. top_taxa (example_library example_dates) (Some ''display_name'') bee_ant 1 = Inr ts
     \<and> distinct ts \<and> set ts \<subseteq> {''Ant'', ''Bee''} \<and> length ts = 1"
proof -
  have c1: "''display_name'' \<in> set (columns bee_ant)" and c2: "''count'' \<in> set (columns bee_ant)"
    by (simp_all add: bee_ant_def example_columns_def)
  have taxa: "str_col ''display_name'' ` set (rows bee_ant) = {''Bee'', ''Ant''}"
    by (simp add: bee_ant_def example_row_def str_col_def)
  have "card {''Bee'', ''Ant''} = 2"
    by simp
  then show ?thesis
    using top_taxa_ranking [OF example_library_desc_contract refl c1 c2, of example_dates 1]
    unfolding taxa by auto
qed

section \<open>Properties of the quarter-by-region aggregate\<close>


lemma index_of_less: "x \<in> set xs \<Longrightarrow> index_of x xs < length xs"
  by (induction xs) auto









section \<open>Properties of the callback\<close>

















section \<open>Records with a date that fails to parse\<close>




end
